theory Spec2Isabelle
  imports Complex_Main
begin

section \<open>Numbers and failures\<close>

text \<open>
  The repository computes with Python numbers: \<open>int\<close> literals and \<open>float\<close>
  values read from the console.  The embedding is over exact arithmetic: a Python number is a
  \<^typ>\<open>real\<close>, so the rounding, overflow and not-a-number behaviour of IEEE doubles is
  not part of the model.  Everything that raises in exact arithmetic (a division by zero, a
  zero base under a negative exponent, a failed conversion of console input, a missing
  attribute, an explicit \<open>raise\<close>) is a value of the model.

  \<open>ComplexResult\<close> is not an exception: a negative base under a fractional exponent makes
  Python 3 return a \<open>complex\<close> number, which leaves the real-valued model.
\<close>

datatype py_error =
    ValueError
  | AttributeError
  | ZeroDivisionError
  | Exception string
  | ComplexResult

definition py_bind :: "py_error + 'a \<Rightarrow> ('a \<Rightarrow> py_error + 'b) \<Rightarrow> py_error + 'b" where
  "py_bind m f = (case m of Inl e \<Rightarrow> Inl e | Inr v \<Rightarrow> f v)"

text \<open>True division \<open>a / b\<close>.\<close>

definition py_div :: "real \<Rightarrow> real \<Rightarrow> py_error + real" where
  "py_div a b = (if b = 0 then Inl ZeroDivisionError else Inr (a / b))"

text \<open>
  The power operator \<open>x ** y\<close> on numbers: anything to the power zero is one, zero to a
  negative power raises, an integral exponent is repeated multiplication (or its reciprocal),
  a positive base takes any exponent, and a negative base under a fractional exponent gives a
  complex number.
\<close>

definition py_pow :: "real \<Rightarrow> real \<Rightarrow> py_error + real" where
  "py_pow x y =
     (if y = 0 then Inr 1
      else if x = 0 then (if y < 0 then Inl ZeroDivisionError else Inr 0)
      else if of_int \<lfloor>y\<rfloor> = y then Inr (x powi \<lfloor>y\<rfloor>)
      else if 0 < x then Inr (x powr y)
      else Inl ComplexResult)"

text \<open>
  Python's built-in \<open>sum(xs)\<close> starts from \<open>0\<close> and adds the elements from left to
  right.
\<close>

definition py_sum :: "real list \<Rightarrow> real" where
  "py_sum xs = foldl (+) 0 xs"

text \<open>
  \<open>round(x, ndigits)\<close>: to the nearest multiple of \<open>10 ** -ndigits\<close>, a tie going to
  the even neighbour.
\<close>

definition py_round :: "real \<Rightarrow> nat \<Rightarrow> real" where
  "py_round x ndigits =
     (let s = x * 10 ^ ndigits;
          f = \<lfloor>s\<rfloor>;
          d = s - of_int f
      in of_int (if d < 1 / 2 then f
                 else if 1 / 2 < d then f + 1
                 else if even f then f else f + 1) / 10 ^ ndigits)"

section \<open>The savings-account tax module (investmentsavingsaccount.py)\<close>

text \<open>
  \<open>InvestmentSavingsAccount.calculate_flat_rate_tax(quaterValues, deposits,
  governmentBorrowingRate)\<close>.
\<close>

definition calculate_flat_rate_tax :: "real list \<Rightarrow> real \<Rightarrow> real \<Rightarrow> py_error + real" where
  "calculate_flat_rate_tax quaterValues deposits governmentBorrowingRate =
     py_bind (py_div (py_sum quaterValues + deposits) 4) (\<lambda>capitalBase.
       let imputedIncome = (if governmentBorrowingRate + 0.01 < 0.0125 then 0.0125
                            else governmentBorrowingRate + 0.01)
       in Inr ((capitalBase * imputedIncome) * 0.3))"

section \<open>The formula library (formulas/financeFormulas.py)\<close>

definition future_value_of_annuity :: "real \<Rightarrow> real \<Rightarrow> real \<Rightarrow> py_error + real" where
  "future_value_of_annuity periodicPayment ratePerPeriod numberOfPeriods =
     py_bind (py_pow (1 + ratePerPeriod) numberOfPeriods) (\<lambda>p.
     py_bind (py_div (p - 1) ratePerPeriod) (\<lambda>q.
       Inr (periodicPayment * q)))"

definition annuity_payment_present_value :: "real \<Rightarrow> real \<Rightarrow> real \<Rightarrow> py_error + real" where
  "annuity_payment_present_value presentValue ratePerPeriod numberOfPeriods =
     py_bind (py_pow (1 + ratePerPeriod) (- numberOfPeriods)) (\<lambda>p.
       py_div (presentValue * ratePerPeriod) (1 - p))"

definition annuity_payment_future_value :: "real \<Rightarrow> real \<Rightarrow> real \<Rightarrow> py_error + real" where
  "annuity_payment_future_value futureValue ratePerPeriod numberOfPeriods =
     py_bind (py_pow (1 + ratePerPeriod) numberOfPeriods) (\<lambda>p.
       py_div (futureValue * ratePerPeriod) (p - 1))"

definition present_value_of_annuity :: "real \<Rightarrow> real \<Rightarrow> real \<Rightarrow> py_error + real" where
  "present_value_of_annuity periodicPayment ratePerPeriod numberOfPeriods =
     py_bind (py_pow (1 + ratePerPeriod) (- numberOfPeriods)) (\<lambda>p.
     py_bind (py_div (1 - p) ratePerPeriod) (\<lambda>q.
       Inr (periodicPayment * q)))"

definition compound_interest :: "real \<Rightarrow> real \<Rightarrow> real \<Rightarrow> py_error + real" where
  "compound_interest principal' ratePerPeriod numberOfPeriods =
     py_bind (py_pow (1 + ratePerPeriod) numberOfPeriods) (\<lambda>p.
       Inr (principal' * (p - 1)))"

definition future_value :: "real \<Rightarrow> real \<Rightarrow> real \<Rightarrow> py_error + real" where
  "future_value initialCashFlow rateOfReturn numberOfPeriods =
     py_bind (py_pow (1 + rateOfReturn) numberOfPeriods) (\<lambda>p.
       Inr (initialCashFlow * p))"

definition present_value :: "real \<Rightarrow> real \<Rightarrow> real \<Rightarrow> py_error + real" where
  "present_value cashFlowAtFirstPeriod rateOfReturn numberOfPeriods =
     py_bind (py_pow (1 + rateOfReturn) numberOfPeriods) (\<lambda>p.
       py_div cashFlowAtFirstPeriod p)"

text \<open>
  \<open>geometric_mean_return\<close> and \<open>holding_period_return\<close>: the \<open>for\<close> loop multiplies the
  accumulator, which starts at 1, by \<open>1 + r\<close> for each element in turn.
\<close>

definition geometric_mean_return :: "real list \<Rightarrow> py_error + real" where
  "geometric_mean_return ratesOfReturn =
     (let root = foldl (\<lambda>root rateOfReturn. root * (1 + rateOfReturn)) 1 ratesOfReturn
      in if length ratesOfReturn > 0
         then py_bind (py_div 1 (real (length ratesOfReturn))) (\<lambda>e.
              py_bind (py_pow root e) (\<lambda>p. Inr (p - 1)))
         else Inr 0)"

definition holding_period_return :: "real list \<Rightarrow> real" where
  "holding_period_return percentagePeriodReturns =
     (let base = foldl (\<lambda>base periodReturn. base * (1 + periodReturn)) 1
                   percentagePeriodReturns
      in if length percentagePeriodReturns > 0 then base - 1 else 0)"

text \<open>
  \<open>net_present_value\<close>: the loop over \<open>enumerate(cashFlows)\<close>, with the running
  \<open>count\<close> and \<open>sum\<close>.
\<close>

fun npv_loop :: "real \<Rightarrow> nat \<Rightarrow> real list \<Rightarrow> real \<Rightarrow> py_error + real" where
  "npv_loop discountRate count [] sumSoFar = Inr sumSoFar"
| "npv_loop discountRate count (cashFlowAtPeriod # rest) sumSoFar =
     py_bind (py_pow (1 + discountRate) (real (count + 1))) (\<lambda>p.
     py_bind (py_div cashFlowAtPeriod p) (\<lambda>q.
       npv_loop discountRate (count + 1) rest (sumSoFar + q)))"

definition net_present_value :: "real \<Rightarrow> real list \<Rightarrow> real \<Rightarrow> py_error + real" where
  "net_present_value initialInvestment cashFlows discountRate =
     py_bind (npv_loop discountRate 0 cashFlows 0) (\<lambda>sumSoFar. Inr (- initialInvestment + sumSoFar))"

section \<open>Console input and output\<close>

text \<open>
  What the user typed at a prompt, as far as the conversions tell answers apart: nothing
  (the empty string, which selects the default), text that both \<open>int()\<close> and
  \<open>float()\<close> accept (such as \<open>20\<close>), text that only \<open>float()\<close> accepts (such as
  \<open>7.5\<close>), and any other text.
\<close>

datatype answer = Empty | IntLit int | FloatLit real | Malformed

definition py_float :: "answer \<Rightarrow> py_error + real" where
  "py_float a = (case a of
       IntLit k \<Rightarrow> Inr (of_int k)
     | FloatLit x \<Rightarrow> Inr x
     | Empty \<Rightarrow> Inl ValueError
     | Malformed \<Rightarrow> Inl ValueError)"

definition py_int :: "answer \<Rightarrow> py_error + int" where
  "py_int a = (case a of
       IntLit k \<Rightarrow> Inr k
     | FloatLit x \<Rightarrow> Inl ValueError
     | Empty \<Rightarrow> Inl ValueError
     | Malformed \<Rightarrow> Inl ValueError)"

text \<open>\<open>int(x)\<close> on a number truncates towards zero.\<close>

definition py_trunc :: "real \<Rightarrow> int" where
  "py_trunc x = (if 0 \<le> x then \<lfloor>x\<rfloor> else \<lceil>x\<rceil>)"

text \<open>How a run ends: normally, by \<open>exit(code)\<close>, or on an exception nobody catches.\<close>

datatype outcome = Finished | Exit nat | Uncaught py_error

text \<open>\<open>str(n)\<close> for an integer, and \<open>format(n, ",")\<close>: digits in groups of three.\<close>

definition digit :: "nat \<Rightarrow> char" where
  "digit d = ''0123456789'' ! (d mod 10)"

fun str_nat :: "nat \<Rightarrow> string" where
  "str_nat n = (if n < 10 then [digit n] else str_nat (n div 10) @ [digit (n mod 10)])"

declare str_nat.simps [simp del]

fun group_thousands :: "nat \<Rightarrow> string" where
  "group_thousands n =
     (if n < 1000 then str_nat n
      else group_thousands (n div 1000) @ '','' @
           [digit (n mod 1000 div 100), digit (n mod 100 div 10), digit (n mod 10)])"

declare group_thousands.simps [simp del]

definition format_comma :: "int \<Rightarrow> string" where
  "format_comma i =
     (if i < 0 then ''-'' @ group_thousands (nat (- i)) else group_thousands (nat i))"

text \<open>\<open>s.replace(a, b)\<close> for one-character \<open>a\<close> and \<open>b\<close>, and \<open>s.ljust(width)\<close>.\<close>

definition replace :: "char \<Rightarrow> char \<Rightarrow> string \<Rightarrow> string" where
  "replace a b s = map (\<lambda>c. if c = a then b else c) s"

definition ljust :: "nat \<Rightarrow> string \<Rightarrow> string" where
  "ljust width s = s @ replicate (width - length s) CHR '' ''"

section \<open>The mortgage calculator (mortgageCalculator.py)\<close>

definition convert_to_percentage :: "answer \<Rightarrow> py_error + real" where
  "convert_to_percentage number =
     py_bind (py_float number) (\<lambda>number.
       if number < 0 then Inl (Exception ''Percentage is outside interval.'')
       else Inr (if number = 0 then 0 else number / 100))"

definition format_number_mortgage :: "real \<Rightarrow> string" where
  "format_number_mortgage number =
     replace CHR ''.'' CHR '','' (replace CHR '','' CHR '' '' (format_comma \<lceil>number\<rceil>))"

record mortgage_input =
  in_propertyCost :: real
  in_downPayment :: real
  in_mortgageType :: real
  in_interestRate :: real

text \<open>
  The \<open>try\<close> block: each answer is read, defaulted when empty, converted and checked in
  turn; the first failure leaves the block.
\<close>

definition mortgage_ask :: "answer \<Rightarrow> answer \<Rightarrow> answer \<Rightarrow> answer \<Rightarrow> py_error + mortgage_input" where
  "mortgage_ask a1 a2 a3 a4 =
     py_bind (if a1 = Empty then Inr 2000000 else py_float a1) (\<lambda>propertyCost.
     if propertyCost \<le> 0 then Inl (Exception ''Invalid property cost.'') else
     py_bind (if a2 = Empty then Inr 0.15 else convert_to_percentage a2) (\<lambda>downPayment.
     py_bind (if a3 = Empty then Inr 15 else py_float a3) (\<lambda>mortgageType.
     if mortgageType \<le> 0 then Inl (Exception ''Invalid Mortgage type.'') else
     py_bind (if a4 = Empty then Inr 0.04 else convert_to_percentage a4) (\<lambda>interestRate.
       Inr \<lparr>in_propertyCost = propertyCost, in_downPayment = downPayment,
            in_mortgageType = mortgageType, in_interestRate = interestRate\<rparr>))))"

text \<open>
  One printed row holds the numbers handed to \<open>format_number\<close>; the loop state is the two
  accumulators and the rows printed so far.
\<close>

record mortgage_row =
  row_month :: nat
  row_amortization :: real
  row_interest :: real
  row_payment :: real
  row_loanLeft :: real

record amortization_state =
  st_loanLeft :: real
  st_interestTotal :: real
  st_rows :: "mortgage_row list"

definition amortization_step :: "real \<Rightarrow> real \<Rightarrow> nat \<Rightarrow> amortization_state \<Rightarrow> amortization_state" where
  "amortization_step amortizationPayment interestRate i st =
     (let interest = st_loanLeft st * (interestRate / 12);
          interestTotal = st_interestTotal st + interest;
          loanLeft = st_loanLeft st - amortizationPayment;
          loanLeft = (if loanLeft \<le> 0 then 0 else loanLeft)
      in \<lparr>st_loanLeft = loanLeft, st_interestTotal = interestTotal,
          st_rows = st_rows st @
            [\<lparr>row_month = i, row_amortization = amortizationPayment, row_interest = interest,
              row_payment = amortizationPayment + interest, row_loanLeft = loanLeft\<rparr>]\<rparr>)"

definition amortization_loop ::
  "real \<Rightarrow> real \<Rightarrow> nat list \<Rightarrow> amortization_state \<Rightarrow> amortization_state" where
  "amortization_loop amortizationPayment interestRate months st =
     fold (amortization_step amortizationPayment interestRate) months st"

text \<open>The state before the loop and after each of its iterations, in order.\<close>

definition amortization_trace ::
  "real \<Rightarrow> real \<Rightarrow> nat list \<Rightarrow> amortization_state \<Rightarrow> amortization_state list" where
  "amortization_trace amortizationPayment interestRate months st =
     map (\<lambda>k. amortization_loop amortizationPayment interestRate (take k months) st)
       [0..<Suc (length months)]"

record mortgage_plan =
  loanAmount :: real
  amortizationNumberOfPayments :: real
  amortizationPayment :: real
  months :: "nat list"
  start :: amortization_state

text \<open>
  What is computed between the \<open>try\<close> block and the loop: the loan, the number of
  payments, the fixed payment, the month numbers \<open>range(1, int(n) + 1)\<close> and the state the
  loop starts from.
\<close>

definition mortgage_plan_of :: "mortgage_input \<Rightarrow> py_error + mortgage_plan" where
  "mortgage_plan_of inp =
     (let loan = in_propertyCost inp * (1 - in_downPayment inp);
          n = in_mortgageType inp * 12
      in py_bind (py_div loan n) (\<lambda>payment.
           Inr \<lparr>loanAmount = loan, amortizationNumberOfPayments = n,
                amortizationPayment = payment,
                months = [1..<nat (py_trunc n + 1)],
                start = \<lparr>st_loanLeft = loan, st_interestTotal = 0, st_rows = []\<rparr>\<rparr>))"

definition mortgage_row_line :: "mortgage_row \<Rightarrow> string" where
  "mortgage_row_line r =
     ljust 10 (str_nat (row_month r))
     @ ljust 17 (format_number_mortgage (row_amortization r))
     @ ljust 13 (format_number_mortgage (row_interest r))
     @ ljust 18 (format_number_mortgage (row_payment r))
     @ format_number_mortgage (row_loanLeft r)"

definition mortgage_header :: string where
  "mortgage_header =
     ljust 10 ''Month:'' @ ljust 17 ''Amortization:'' @ ljust 13 ''Interest:''
     @ ljust 18 ''Total Payment:'' @ ''Loan Left:'' @ [CHR 0x0A] @ replicate 68 CHR ''-''"

definition error_text :: "py_error \<Rightarrow> string" where
  "error_text e = (case e of
       ValueError \<Rightarrow> ''Could not convert string to float.''
     | Exception msg \<Rightarrow> msg
     | _ \<Rightarrow> [])"

text \<open>
  The whole script, from the first statement under \<open>if __name__ == "__main__"\<close>: the
  lines it prints (one per \<open>print\<close> call; the prompts of \<open>input\<close> are not among them)
  and how it ends.  Both \<open>except\<close> clauses print one line and leave with \<open>exit(1)\<close>.
\<close>

definition mortgage_main :: "answer \<Rightarrow> answer \<Rightarrow> answer \<Rightarrow> answer \<Rightarrow> string list \<times> outcome" where
  "mortgage_main a1 a2 a3 a4 =
     (case mortgage_ask a1 a2 a3 a4 of
        Inl e \<Rightarrow> ([error_text e], Exit 1)
      | Inr inp \<Rightarrow>
          (case mortgage_plan_of inp of
             Inl e \<Rightarrow> ([], Uncaught e)
           | Inr plan \<Rightarrow>
               (let final = amortization_loop (amortizationPayment plan) (in_interestRate inp)
                              (months plan) (start plan)
                in ([[],
                     ljust 20 ''Down Payment: ''
                       @ format_number_mortgage (in_propertyCost inp - loanAmount plan),
                     ljust 20 ''Loan Amount:''
                       @ format_number_mortgage (loanAmount plan) @ [CHR 0x0A],
                     mortgage_header]
                    @ map mortgage_row_line (st_rows final)
                    @ [ljust 10 ''Total:''
                       @ ljust 17 (format_number_mortgage (loanAmount plan))
                       @ ljust 13 (format_number_mortgage (st_interestTotal final))
                       @ ljust 18 (format_number_mortgage
                                     (loanAmount plan + st_interestTotal final))
                       @ format_number_mortgage (st_loanLeft final)],
                    Finished))))"

section \<open>The class namespace of the formula library\<close>

text \<open>
  The names that the body of \<open>class FinanceFormulas\<close> binds, in source order.  The class
  has no base class other than \<open>object\<close>, no \<open>__getattr__\<close> and no attribute that
  is set elsewhere, and the scripts create the object with \<open>FM.FinanceFormulas()\<close>; so
  \<open>fm.name\<close> finds a method exactly when \<open>name\<close> is in this list, and raises
  \<open>AttributeError\<close> otherwise.
\<close>

definition FinanceFormulas_methods :: "string list" where
  "FinanceFormulas_methods =
    [''annual_percentage_yield'', ''cost_of_goods_sold'', ''future_value_of_annuity'',
     ''future_value_of_annuity_with_continuous_compounding'',
     ''number_of_periods_for_future_value_of_annuity'', ''annuity_payment_present_value'',
     ''annuity_payment_future_value'', ''annuity_payment_factor'',
     ''present_value_of_annuity'', ''present_value_of_annuity_with_continuous_compounding'',
     ''number_of_periods_for_present_value_of_annuity'', ''present_value_annuity_factor'',
     ''present_value_of_annuity_due'', ''future_value_of_annuity_due'',
     ''annuity_due_payment_using_present_value'', ''annuity_due_payment_using_future_value'',
     ''asset_to_sales_ratio'', ''asset_turnover_ratio'', ''average_collection_period'',
     ''balloon_loan_payment'', ''bid_ask_spread'', ''bond_equivalent_yield'',
     ''book_value_per_share'', ''capital_asset_pricing_model'', ''capital_gains_yield'',
     ''compound_interest'', ''continuous_compounding'', ''contribution_margin'',
     ''current_ratio'', ''current_yield'', ''days_in_inventory'', ''debt_coverage_ratio'',
     ''debt_ratio'', ''debt_to_equity_ratio'', ''debt_to_income_ratio'',
     ''diluted_earnings_per_share'', ''discounted_payback_period'', ''dividend_payout_ratio'',
     ''dividend_yield'', ''dividends_per_share'', ''doubling_time'',
     ''doubling_time_with_continuous_compounding'', ''doubling_time_for_simple_interest'',
     ''earnings_per_share'', ''equity_multiplier'', ''equivalent_annual_annuity'',
     ''estimated_earnings'', ''free_cash_flow_to_equity'', ''free_cash_flow_to_firm'',
     ''future_value'', ''future_value_with_continuous_compounding'', ''future_value_factor'',
     ''geometric_mean_return'', ''gross_profit_margin'', ''future_value_of_growing_annuity'',
     ''growing_annuity_payment_from_present_value'',
     ''growing_annuity_payment_from_future_value'', ''present_value_of_a_growing_annuity'',
     ''present_value_of_growing_perpetuity'', ''holding_period_return'',
     ''interest_coverage_ratio'', ''inventory_turnover_ratio'', ''interest_rate_parity'',
     ''balloon_balance_of_a_loan'', ''loan_payment'', ''remaining_balance_on_loan'',
     ''loan_to_deposit_ratio'', ''loan_to_value_ratio'', ''net_asset_value'',
     ''net_interest_income'', ''net_interest_margin'', ''net_interest_spread'',
     ''net_present_value'', ''net_profit_margin'', ''net_working_capital'',
     ''number_of_periods_for_present_value_to_reach_future_value'', ''operating_margin'',
     ''payback_period'', ''present_value_of_perpetuity'', ''perpetuity_payment'',
     ''perpetuity_yield'', ''preferred_stock_value'', ''present_value'',
     ''present_value_factor'', ''present_value_with_continuous_compounding'',
     ''present_value_with_continuous_compounding_factor'', ''price_to_book_value_ratio'',
     ''price_to_cash_flows_ratio'', ''price_to_dividend_ratio'', ''price_to_earnings_ratio'',
     ''price_to_sales_ratio'', ''profitability_index'', ''quick_ratio'', ''rate_of_inflation'',
     ''real_rate_of_return'', ''receivables_turnover_ratio'', ''retention_ratio'',
     ''return_on_assets'', ''return_on_equity'', ''return_on_investment'', ''risk_premium'',
     ''rule_of_72'', ''simple_interest'', ''present_value_of_stock_with_constant_growth'',
     ''present_value_of_stock_with_zero_growth'', ''tax_equivalent_yield'',
     ''total_stock_return'', ''weighted_average'', ''yield_to_maturity'',
     ''zero_coupon_bond_value'', ''zero_coupon_bond_effective_yield'']"

definition fm_getattr :: "string \<Rightarrow> py_error + unit" where
  "fm_getattr name =
     (if name \<in> set FinanceFormulas_methods then Inr () else Inl AttributeError)"

section \<open>The compound-interest calculator (compoundInterestCalculator.py)\<close>

text \<open>
  \<open>format_number\<close> as compoundInterestCalculator.py and
  iskContinuousCompoundingWithMonthlySave.py define it: \<open>int(number)\<close> comes first, and
  \<open>math.ceil\<close> is applied to the integer it returns.
\<close>

definition format_number_savings :: "real \<Rightarrow> string" where
  "format_number_savings number =
     replace CHR ''.'' CHR '','' (replace CHR '','' CHR '' ''
       (format_comma \<lceil>(of_int (py_trunc number) :: real)\<rceil>))"

text \<open>\<open>s.lower()\<close> on the letters A to Z.\<close>

definition py_lower :: "string \<Rightarrow> string" where
  "py_lower s =
     map (\<lambda>c. if 65 \<le> (of_char c :: nat) \<and> (of_char c :: nat) \<le> 90
              then char_of (of_char c + 32 :: nat) else c) s"

record compound_input =
  ci_startCapital :: real
  ci_monthlyDeposit :: real
  ci_rateOfReturn :: real
  ci_yearsToSave :: int
  ci_flatRateTax :: bool

text \<open>
  The five answers and their conversion (lines 22 to 26); a failed conversion is a
  \<open>ValueError\<close> that nothing catches.
\<close>

definition compound_ask ::
  "answer \<Rightarrow> answer \<Rightarrow> answer \<Rightarrow> answer \<Rightarrow> string \<Rightarrow> py_error + compound_input" where
  "compound_ask a1 a2 a3 a4 a5 =
     py_bind (if a1 = Empty then Inr 250000 else py_float a1) (\<lambda>startCapital.
     py_bind (if a2 = Empty then Inr 5000 else py_float a2) (\<lambda>monthlyDeposit.
     py_bind (if a3 = Empty then Inr 0.08
              else py_bind (py_float a3) (\<lambda>x. Inr (x / 100))) (\<lambda>rateOfReturn.
     py_bind (if a4 = Empty then Inr 20 else py_int a4) (\<lambda>yearsToSave.
       Inr \<lparr>ci_startCapital = startCapital, ci_monthlyDeposit = monthlyDeposit,
            ci_rateOfReturn = rateOfReturn, ci_yearsToSave = yearsToSave,
            ci_flatRateTax = (py_lower a5 = ''y'' \<or> a5 = [])\<rparr>))))"

record savings_row =
  sv_year :: nat
  sv_gained :: real
  sv_salary :: real
  sv_tax :: real
  sv_totSaved :: real
  sv_totGained :: real
  sv_totCapital :: real

record savings_state =
  cs_totalCapital :: real
  cs_totalSaved :: real
  cs_totalGained :: real
  cs_yearlyGained :: real
  cs_quaterValues :: "real list"
  cs_yearCounter :: nat
  cs_rows :: "savings_row list"

text \<open>One iteration of the loop over \<open>range(yearsToSave * 12)\<close>.\<close>

definition savings_step ::
  "bool \<Rightarrow> real \<Rightarrow> real \<Rightarrow> nat \<Rightarrow> savings_state \<Rightarrow> py_error + savings_state" where
  "savings_step flatRateTax monthlyDeposit avgRateOfReturnPerMonth month st =
     (let totalCapital = cs_totalCapital st + monthlyDeposit;
          totalSaved = cs_totalSaved st + monthlyDeposit
      in py_bind (fm_getattr ''compound_interest'') (\<lambda>_.
         py_bind (compound_interest totalCapital avgRateOfReturnPerMonth 1) (\<lambda>monthCompound.
           let yearlyGained = cs_yearlyGained st + monthCompound;
               totalGained = cs_totalGained st + monthCompound;
               totalCapital = totalCapital + monthCompound;
               quaterValues = (if month mod 12 \<in> set [0, 3, 6, 9]
                               then cs_quaterValues st @ [totalCapital]
                               else cs_quaterValues st)
           in if month mod 12 = 11 then
                py_bind (calculate_flat_rate_tax quaterValues (monthlyDeposit * 12) 0.0002)
                  (\<lambda>tax.
                    let totalCapital = totalCapital - (if flatRateTax then tax else 0)
                    in Inr \<lparr>cs_totalCapital = totalCapital, cs_totalSaved = totalSaved,
                            cs_totalGained = totalGained, cs_yearlyGained = 0,
                            cs_quaterValues = [], cs_yearCounter = cs_yearCounter st + 1,
                            cs_rows = cs_rows st @
                              [\<lparr>sv_year = cs_yearCounter st, sv_gained = yearlyGained,
                                sv_salary = yearlyGained / 12, sv_tax = tax,
                                sv_totSaved = totalSaved, sv_totGained = totalGained,
                                sv_totCapital = totalCapital\<rparr>]\<rparr>)
              else Inr \<lparr>cs_totalCapital = totalCapital, cs_totalSaved = totalSaved,
                        cs_totalGained = totalGained, cs_yearlyGained = yearlyGained,
                        cs_quaterValues = quaterValues, cs_yearCounter = cs_yearCounter st,
                        cs_rows = cs_rows st\<rparr>)))"

text \<open>
  The loop stops at the first iteration that raises; the rows printed by the iterations
  before it stay printed.
\<close>

fun savings_loop ::
  "bool \<Rightarrow> real \<Rightarrow> real \<Rightarrow> nat list \<Rightarrow> savings_state \<Rightarrow> savings_state \<times> py_error option"
  where
  "savings_loop flatRateTax monthlyDeposit avgRate [] st = (st, None)"
| "savings_loop flatRateTax monthlyDeposit avgRate (month # rest) st =
     (case savings_step flatRateTax monthlyDeposit avgRate month st of
        Inl e \<Rightarrow> (st, Some e)
      | Inr st' \<Rightarrow> savings_loop flatRateTax monthlyDeposit avgRate rest st')"

definition savings_start :: "real \<Rightarrow> savings_state" where
  "savings_start startCapital =
     \<lparr>cs_totalCapital = startCapital, cs_totalSaved = startCapital, cs_totalGained = 0,
      cs_yearlyGained = 0, cs_quaterValues = [], cs_yearCounter = 1, cs_rows = []\<rparr>"

definition savings_row_line :: "savings_row \<Rightarrow> string" where
  "savings_row_line r =
     ljust 8 (str_nat (sv_year r))
     @ ljust 15 (format_number_savings (sv_gained r))
     @ ljust 15 (format_number_savings (sv_salary r))
     @ ljust 15 (format_number_savings (sv_tax r))
     @ ljust 15 (format_number_savings (sv_totSaved r))
     @ ljust 15 (format_number_savings (sv_totGained r))
     @ format_number_savings (sv_totCapital r)"

definition compound_header :: string where
  "compound_header =
     ljust 8 ''Year:'' @ ljust 15 ''Gained:'' @ ljust 15 ''Salary/Month:''
     @ ljust 15 ''Flat-tax Rate:'' @ ljust 15 ''Tot Saved:'' @ ljust 15 ''Tot Gained:''
     @ ljust 15 ''Tot Capital:'' @ [CHR 0x0A] @ replicate 95 CHR ''-''"

text \<open>
  The whole script, from the first statement under \<open>if __name__ == "__main__"\<close>, the
  \<open>import\<close> statements above it having succeeded.  The class does not define the method
  that line 28 calls, so its body is a parameter \<open>avg\<close> of the model: whatever such a
  method would compute is used only if the lookup of its name succeeds.
\<close>

definition compound_main ::
  "(real \<Rightarrow> real \<Rightarrow> py_error + real) \<Rightarrow>
   answer \<Rightarrow> answer \<Rightarrow> answer \<Rightarrow> answer \<Rightarrow> string \<Rightarrow> string list \<times> outcome" where
  "compound_main avg a1 a2 a3 a4 a5 =
     (case compound_ask a1 a2 a3 a4 a5 of
        Inl e \<Rightarrow> ([], Uncaught e)
      | Inr inp \<Rightarrow>
          (case py_bind (fm_getattr ''average_rate_of_return_per_year'')
                  (\<lambda>_. avg (ci_rateOfReturn inp + 1) 12) of
             Inl e \<Rightarrow> ([], Uncaught e)
           | Inr avgRateOfReturnPerMonth \<Rightarrow>
               (case savings_loop (ci_flatRateTax inp) (ci_monthlyDeposit inp)
                       avgRateOfReturnPerMonth [0..<nat (ci_yearsToSave inp * 12)]
                       (savings_start (ci_startCapital inp)) of
                  (final, err) \<Rightarrow>
                    ([ljust 25 ([CHR 0x0A] @ ''Start Capital: '')
                        @ format_number_savings (ci_startCapital inp),
                      ljust 25 ''Monthly Deposit:  ''
                        @ format_number_savings (ci_monthlyDeposit inp),
                      ljust 25 ''Rate of Return: ''
                        @ format_number_savings (py_round (ci_rateOfReturn inp * 100) 0)
                        @ '' %'',
                      ljust 25 ''Years to Save:         ''
                        @ format_number_savings (of_int (ci_yearsToSave inp)),
                      ljust 25 ''Flat-Rate Tax included: ''
                        @ (if ci_flatRateTax inp then ''True'' else ''False'') @ [CHR 0x0A],
                      compound_header]
                     @ map savings_row_line (cs_rows final),
                     case err of None \<Rightarrow> Finished | Some e \<Rightarrow> Uncaught e))))"

section \<open>The ISK calculator (iskContinuousCompoundingWithMonthlySave.py)\<close>

record isk_input =
  ii_startCapital :: real
  ii_monthlySave :: real
  ii_yearlyReturn :: real
  ii_years :: int
  ii_flatratetax :: bool

definition isk_ask ::
  "answer \<Rightarrow> answer \<Rightarrow> answer \<Rightarrow> answer \<Rightarrow> string \<Rightarrow> py_error + isk_input" where
  "isk_ask a1 a2 a3 a4 a5 =
     py_bind (if a1 = Empty then Inr 100000 else py_float a1) (\<lambda>startCapital.
     py_bind (if a2 = Empty then Inr 2000 else py_float a2) (\<lambda>monthlySave.
     py_bind (if a3 = Empty then Inr 0.08
              else py_bind (py_float a3) (\<lambda>x. Inr (x / 100))) (\<lambda>yearlyReturn.
     py_bind (if a4 = Empty then Inr 40 else py_int a4) (\<lambda>years.
       Inr \<lparr>ii_startCapital = startCapital, ii_monthlySave = monthlySave,
            ii_yearlyReturn = yearlyReturn, ii_years = years,
            ii_flatratetax = (py_lower a5 = ''y'' \<or> a5 = [])\<rparr>))))"

text \<open>
  A printed row: the numbers handed to \<open>format_number\<close>, and the tax percentage handed
  to \<open>"{:.2f}".format\<close>.
\<close>

record isk_row =
  ir_year :: nat
  ir_gained :: real
  ir_salary :: real
  ir_tax :: real
  ir_taxPercent :: real
  ir_totSaved :: real
  ir_totGained :: real
  ir_totCapital :: real

record isk_state =
  is_totalSum :: real
  is_totalSaved :: real
  is_totalGained :: real
  is_yearCounter :: nat
  is_rows :: "isk_row list"

text \<open>One iteration of the loop over \<open>range(1, (years * 12) + 1)\<close>.\<close>

definition isk_step ::
  "bool \<Rightarrow> real \<Rightarrow> real \<Rightarrow> nat \<Rightarrow> isk_state \<Rightarrow> py_error + isk_state" where
  "isk_step flatratetax monthlySave yearlyReturn month st =
     (let totalSum = is_totalSum st + monthlySave;
          totalSaved = is_totalSaved st + monthlySave
      in if month mod 12 = 0 \<and> month \<noteq> 0 then
           py_bind (fm_getattr ''compound_interest'') (\<lambda>_.
           py_bind (compound_interest totalSum yearlyReturn 1) (\<lambda>compound.
           let totalGained = is_totalGained st + compound;
               quaterValues = map (\<lambda>i. totalSum + (compound / 3) * real i) [0..<4]
           in py_bind (calculate_flat_rate_tax quaterValues 0 0.0002) (\<lambda>tax.
              let totalSum = (if flatratetax then totalSum + (compound - tax)
                              else totalSum + compound)
              in py_bind (py_div tax compound) (\<lambda>share.
                   Inr \<lparr>is_totalSum = totalSum, is_totalSaved = totalSaved,
                        is_totalGained = totalGained,
                        is_yearCounter = is_yearCounter st + 1,
                        is_rows = is_rows st @
                          [\<lparr>ir_year = is_yearCounter st, ir_gained = compound,
                            ir_salary = compound / 12, ir_tax = tax,
                            ir_taxPercent = share * 100, ir_totSaved = totalSaved,
                            ir_totGained = totalGained, ir_totCapital = totalSum\<rparr>]\<rparr>))))
         else Inr \<lparr>is_totalSum = totalSum, is_totalSaved = totalSaved,
                   is_totalGained = is_totalGained st,
                   is_yearCounter = is_yearCounter st, is_rows = is_rows st\<rparr>)"

fun isk_loop ::
  "bool \<Rightarrow> real \<Rightarrow> real \<Rightarrow> nat list \<Rightarrow> isk_state \<Rightarrow> isk_state \<times> py_error option" where
  "isk_loop flatratetax monthlySave yearlyReturn [] st = (st, None)"
| "isk_loop flatratetax monthlySave yearlyReturn (month # rest) st =
     (case isk_step flatratetax monthlySave yearlyReturn month st of
        Inl e \<Rightarrow> (st, Some e)
      | Inr st' \<Rightarrow> isk_loop flatratetax monthlySave yearlyReturn rest st')"

definition isk_start :: "real \<Rightarrow> isk_state" where
  "isk_start startCapital =
     \<lparr>is_totalSum = startCapital, is_totalSaved = startCapital, is_totalGained = 0,
      is_yearCounter = 1, is_rows = []\<rparr>"

text \<open>
  \<open>fmt2\<close> stands for \<open>"{:.2f}".format\<close> on a \<open>float\<close>: which way it rounds a value
  near a tie depends on the binary value, which exact arithmetic does not determine.
\<close>

definition isk_row_line :: "(real \<Rightarrow> string) \<Rightarrow> isk_row \<Rightarrow> string" where
  "isk_row_line fmt2 r =
     ljust 8 (str_nat (ir_year r))
     @ ljust 15 (format_number_savings (ir_gained r))
     @ ljust 15 (format_number_savings (ir_salary r))
     @ ljust 15 (format_number_savings (ir_tax r))
     @ ljust 10 (fmt2 (ir_taxPercent r))
     @ ljust 15 (format_number_savings (ir_totSaved r))
     @ ljust 15 (format_number_savings (ir_totGained r))
     @ format_number_savings (ir_totCapital r)"

definition isk_header :: string where
  "isk_header =
     ljust 8 ''Year:'' @ ljust 15 ''Gained:'' @ ljust 15 ''Salary/Month:''
     @ ljust 15 ''Flat-tax Rate:'' @ ljust 10 ''Tax %:'' @ ljust 15 ''Tot Saved:''
     @ ljust 15 ''Tot Gained:'' @ ljust 15 ''Tot Capital:''
     @ [CHR 0x0A] @ replicate 105 CHR ''-''"

text \<open>
  The whole script, from the first statement under \<open>if __name__ == "__main__"\<close>.  The
  summary and the header are printed before the loop, so they stay printed when an
  iteration raises.
\<close>

definition isk_main ::
  "(real \<Rightarrow> string) \<Rightarrow> answer \<Rightarrow> answer \<Rightarrow> answer \<Rightarrow> answer \<Rightarrow> string
     \<Rightarrow> string list \<times> outcome" where
  "isk_main fmt2 a1 a2 a3 a4 a5 =
     (case isk_ask a1 a2 a3 a4 a5 of
        Inl e \<Rightarrow> ([], Uncaught e)
      | Inr inp \<Rightarrow>
          (case isk_loop (ii_flatratetax inp) (ii_monthlySave inp) (ii_yearlyReturn inp)
                  [1..<nat (ii_years inp * 12 + 1)] (isk_start (ii_startCapital inp)) of
             (final, err) \<Rightarrow>
               ([ljust 25 ([CHR 0x0A] @ ''Start Capital: '')
                   @ format_number_savings (ii_startCapital inp),
                 ljust 25 ''Monthly Save:  ''
                   @ format_number_savings (ii_monthlySave inp),
                 ljust 25 ''Yearly Return: ''
                   @ format_number_savings (py_round (ii_yearlyReturn inp * 100) 0)
                   @ '' %'',
                 ljust 25 ''Years:         ''
                   @ format_number_savings (of_int (ii_years inp)),
                 ljust 25 ''Flat-Rate Tax included: ''
                   @ (if ii_flatratetax inp then ''True'' else ''False'') @ [CHR 0x0A],
                 isk_header]
                @ map (isk_row_line fmt2) (is_rows final),
                case err of None \<Rightarrow> Finished | Some e \<Rightarrow> Uncaught e)))"

section \<open>The average-rate-of-return calculator (averageRateOfReturnCalculator.py)\<close>

text \<open>
  Both answers are converted without a default.  The body of the missing method is the
  parameter \<open>avg\<close> again; \<open>str_float\<close> stands for \<open>str\<close> on a \<open>float\<close>, whose
  shortest-digits output exact arithmetic does not determine.
\<close>

definition average_ask :: "answer \<Rightarrow> answer \<Rightarrow> py_error + real \<times> int" where
  "average_ask b1 b2 =
     py_bind (py_float b1) (\<lambda>totalRateOfReturn.
     py_bind (py_int b2) (\<lambda>years.
       Inr (totalRateOfReturn, years)))"

definition average_main ::
  "(real \<Rightarrow> real \<Rightarrow> py_error + real) \<Rightarrow> (real \<Rightarrow> string) \<Rightarrow>
   answer \<Rightarrow> answer \<Rightarrow> string list \<times> outcome" where
  "average_main avg str_float b1 b2 =
     (case average_ask b1 b2 of
        Inl e \<Rightarrow> ([], Uncaught e)
      | Inr (totalRateOfReturn, years) \<Rightarrow>
          (case py_bind (fm_getattr ''average_rate_of_return_per_year'')
                  (\<lambda>_. avg totalRateOfReturn (of_int years)) of
             Inl e \<Rightarrow> ([], Uncaught e)
           | Inr v \<Rightarrow> ([str_float (py_round (v * 100) 2) @ '' %''], Finished)))"

section \<open>Basic facts\<close>

lemma py_bind_Inl [simp]: "py_bind (Inl e) f = Inl e"
  by (simp add: py_bind_def)

lemma py_bind_Inr [simp]: "py_bind (Inr v) f = f v"
  by (simp add: py_bind_def)

lemma py_div_nonzero: "b \<noteq> 0 \<Longrightarrow> py_div a b = Inr (a / b)"
  by (simp add: py_div_def)

lemma py_div_zero: "py_div a 0 = Inl ZeroDivisionError"
  by (simp add: py_div_def)

lemma foldl_plus_start: "foldl (+) (a::real) xs = a + sum_list xs"
  by (induction xs arbitrary: a) simp_all

lemma py_sum_sum_list: "py_sum xs = sum_list xs"
  by (simp add: py_sum_def foldl_plus_start)

section \<open>Properties of the tax module\<close>

text \<open>
  C2: for every list of quarterly values, deposits amount and government borrowing rate the
  tax is \<open>((sum qs + d) / 4) * max (g + 0.01) 0.0125 * 0.30\<close>, and on
  \<open>[100, 100, 100, 100]\<close>, \<open>0\<close>, \<open>0.0002\<close> it is exactly \<open>0.375\<close>.
\<close>

theorem calculate_flat_rate_tax_formula:
  "calculate_flat_rate_tax qs d g
     = Inr (((sum_list qs + d) / 4) * max (g + 0.01) 0.0125 * 0.30)
   \<and> calculate_flat_rate_tax [100, 100, 100, 100] 0 0.0002 = Inr 0.375"
proof
  show "calculate_flat_rate_tax qs d g
          = Inr (((sum_list qs + d) / 4) * max (g + 0.01) 0.0125 * 0.30)"
    by (simp add: calculate_flat_rate_tax_def py_sum_sum_list py_div_nonzero max_def Let_def)
next
  show "calculate_flat_rate_tax [100, 100, 100, 100] 0 0.0002 = Inr 0.375"
    by (simp add: calculate_flat_rate_tax_def py_sum_def py_div_nonzero Let_def)
qed

text \<open>
  C9: on quarterly values, deposits and a government borrowing rate that are all
  non-negative the function returns a number, never an error, and that number is
  non-negative.
\<close>

theorem calculate_flat_rate_tax_nonneg:
  assumes "\<forall>q \<in> set qs. 0 \<le> q" and "0 \<le> d" and "0 \<le> g"
  shows "\<exists>tax. calculate_flat_rate_tax qs d g = Inr tax \<and> 0 \<le> tax"
proof -
  have s: "0 \<le> sum_list qs"
    using assms(1) by (simp add: sum_list_nonneg)
  define imputedIncome where
    "imputedIncome = (if g + 0.01 < 0.0125 then 0.0125 else g + 0.01)"
  have i: "0 \<le> imputedIncome"
    using assms(3) by (simp add: imputedIncome_def)
  have "calculate_flat_rate_tax qs d g = Inr (((sum_list qs + d) / 4 * imputedIncome) * 0.3)"
    by (simp add: calculate_flat_rate_tax_def py_sum_sum_list py_div_nonzero Let_def
        imputedIncome_def)
  moreover have "0 \<le> ((sum_list qs + d) / 4 * imputedIncome) * 0.3"
    using s assms(2) i by simp
  ultimately show ?thesis by blast
qed

theorem calculate_flat_rate_tax_nonneg_witness:
  "list_all (\<lambda>q. 0 \<le> q) [250, 0, 1000, 40 :: real] \<and> (0::real) \<le> 60000 \<and> (0::real) \<le> 0.0194
   \<and> (\<exists>tax. calculate_flat_rate_tax [250, 0, 1000, 40] 60000 0.0194 = Inr tax \<and> 0 \<le> tax)"
proof -
  have q: "\<forall>q \<in> set [250, 0, 1000, 40 :: real]. 0 \<le> q" by simp
  have d: "(0::real) \<le> 60000" by simp
  have g: "(0::real) \<le> 0.0194" by simp
  show ?thesis
    using d g calculate_flat_rate_tax_nonneg [OF q d g] by simp
qed

section \<open>Facts about the power operator\<close>

lemma py_pow_of_nat: "x \<noteq> 0 \<Longrightarrow> py_pow x (real n) = Inr (x ^ n)"
  by (simp add: py_pow_def)

lemma py_pow_one: "py_pow x 1 = Inr x"
  by (simp add: py_pow_def)

lemma py_pow_minus:
  assumes "py_pow x n = Inr p" and "p \<noteq> 0"
  shows "py_pow x (- n) = Inr (1 / p)"
proof (cases "n = 0")
  case True
  with assms show ?thesis by (simp add: py_pow_def)
next
  case n: False
  show ?thesis
  proof (cases "x = 0")
    case True
    with assms n show ?thesis by (simp add: py_pow_def split: if_splits)
  next
    case x: False
    show ?thesis
    proof (cases "of_int \<lfloor>n\<rfloor> = n")
      case True
      then have f: "\<lfloor>- n\<rfloor> = - \<lfloor>n\<rfloor>"
        by (metis floor_of_int of_int_minus)
      with True have "of_int \<lfloor>- n\<rfloor> = - n" by simp
      with assms n x True f show ?thesis
        by (auto simp add: py_pow_def power_int_minus divide_inverse)
    next
      case False
      then have "of_int \<lfloor>- n\<rfloor> \<noteq> - n"
        by (metis floor_of_int of_int_minus minus_minus)
      with assms n x False show ?thesis
        by (auto simp add: py_pow_def powr_minus divide_inverse split: if_splits)
    qed
  qed
qed

text \<open>On a non-negative base the exponent \<open>1 / n\<close> is the \<open>n\<close>-th root.\<close>

lemma py_pow_root:
  assumes "0 \<le> x" and "0 < n"
  shows "py_pow x (1 / real n) = Inr (root n x)"
proof (cases "x = 0")
  case True
  with assms show ?thesis by (simp add: py_pow_def)
next
  case False
  with assms have x: "0 < x" by simp
  show ?thesis
  proof (cases "n = 1")
    case True
    with x show ?thesis by (simp add: py_pow_def)
  next
    case False
    with assms have n: "1 < real n" by simp
    then have "0 < 1 / real n" "1 / real n < 1" by simp_all
    then have "\<lfloor>1 / real n\<rfloor> = 0" by (simp add: floor_eq_iff)
    then have "of_int \<lfloor>1 / real n\<rfloor> \<noteq> 1 / real n"
      using \<open>0 < 1 / real n\<close> by simp
    with x assms show ?thesis
      by (simp add: py_pow_def root_powr_inverse)
  qed
qed

section \<open>Properties of the formula library\<close>

subsection \<open>Round trips\<close>

text \<open>
  C4: take any cash flow \<open>x\<close>, payment \<open>a\<close>, rate \<open>r\<close> and period count \<open>n\<close> for
  which \<open>(1 + r) ** n\<close> is a number \<open>p\<close>.  When \<open>p\<close> is not zero, the present value
  of the future value of \<open>x\<close> is \<open>x\<close>.  When \<open>r\<close> is not zero and \<open>p\<close> is not one, the
  annuity payment computed from the future value of an annuity of payment \<open>a\<close> is \<open>a\<close>;
  and, \<open>p\<close> still being other than zero, so is the annuity payment computed from its
  present value.  Each composition feeds the result of the first function to the second, so
  an error of either would show.
\<close>

theorem round_trips:
  assumes "py_pow (1 + r) n = Inr p"
  shows "(p \<noteq> 0 \<longrightarrow>
            py_bind (future_value x r n) (\<lambda>v. present_value v r n) = Inr x)
       \<and> (r \<noteq> 0 \<and> p \<noteq> 1 \<longrightarrow>
            py_bind (future_value_of_annuity a r n)
              (\<lambda>v. annuity_payment_future_value v r n) = Inr a)
       \<and> (p \<noteq> 0 \<and> r \<noteq> 0 \<and> p \<noteq> 1 \<longrightarrow>
            py_bind (present_value_of_annuity a r n)
              (\<lambda>v. annuity_payment_present_value v r n) = Inr a)"
proof (intro conjI impI)
  assume "p \<noteq> 0"
  then show "py_bind (future_value x r n) (\<lambda>v. present_value v r n) = Inr x"
    using assms by (simp add: future_value_def present_value_def py_div_nonzero)
next
  assume "r \<noteq> 0 \<and> p \<noteq> 1"
  then show "py_bind (future_value_of_annuity a r n)
          (\<lambda>v. annuity_payment_future_value v r n) = Inr a"
    using assms
    by (simp add: future_value_of_annuity_def annuity_payment_future_value_def py_div_nonzero)
next
  assume h: "p \<noteq> 0 \<and> r \<noteq> 0 \<and> p \<noteq> 1"
  have m: "py_pow (1 + r) (- n) = Inr (1 / p)"
    using assms h by (simp add: py_pow_minus)
  have d: "1 - 1 / p \<noteq> 0"
    using h by (simp add: field_simps)
  show "py_bind (present_value_of_annuity a r n)
          (\<lambda>v. annuity_payment_present_value v r n) = Inr a"
    using h d m
    by (simp add: present_value_of_annuity_def annuity_payment_present_value_def py_div_nonzero)
qed

theorem round_trips_witness:
  "py_pow (1 + 0.1) 2 = Inr 1.21 \<and> (1.21::real) \<noteq> 0 \<and> (0.1::real) \<noteq> 0 \<and> (1.21::real) \<noteq> 1
   \<and> py_bind (future_value 1000 0.1 2) (\<lambda>v. present_value v 0.1 2) = Inr 1000
   \<and> py_bind (future_value_of_annuity 150 0.1 2)
        (\<lambda>v. annuity_payment_future_value v 0.1 2) = Inr 150
   \<and> py_bind (present_value_of_annuity 150 0.1 2)
        (\<lambda>v. annuity_payment_present_value v 0.1 2) = Inr 150"
proof -
  have p: "py_pow (1 + 0.1) 2 = Inr 1.21"
    by (simp add: py_pow_def power2_eq_square)
  have "(1.21::real) \<noteq> 0 \<and> (0.1::real) \<noteq> 0 \<and> (1.21::real) \<noteq> 1" by simp
  with p round_trips [OF p, of 1000 150] show ?thesis by blast
qed

text \<open>
  Why the present-value pair needs the power to be other than zero: at a rate of \<open>- 1\<close>
  and any positive number of periods \<open>present_value_of_annuity\<close> raises on
  \<open>0 ** - n\<close>.
\<close>

lemma present_value_of_annuity_rate_minus_one:
  "0 < n \<Longrightarrow> present_value_of_annuity a (- 1) n = Inl ZeroDivisionError"
  by (simp add: present_value_of_annuity_def py_pow_def)

subsection \<open>Geometric mean return and holding period return\<close>

lemma foldl_times_start:
  "foldl (\<lambda>acc x. acc * (1 + x)) (a::real) xs = a * prod_list (map (\<lambda>x. 1 + x) xs)"
  by (induction xs arbitrary: a) (simp_all add: mult.assoc)

lemma py_pow_negative_root:
  assumes "x < 0" and "1 < n"
  shows "py_pow x (1 / real n) = Inl ComplexResult"
proof -
  have n: "1 < real n" using assms(2) by simp
  then have "0 < 1 / real n" "1 / real n < 1" by simp_all
  then have "\<lfloor>1 / real n\<rfloor> = 0" by (simp add: floor_eq_iff)
  then have "of_int \<lfloor>1 / real n\<rfloor> \<noteq> 1 / real n"
    using \<open>0 < 1 / real n\<close> by simp
  with assms(1) \<open>0 < 1 / real n\<close> show ?thesis
    by (simp add: py_pow_def)
qed

lemma geometric_mean_return_Cons:
  "geometric_mean_return (r # rs)
     = py_bind (py_pow (prod_list (map (\<lambda>x. 1 + x) (r # rs))) (1 / real (length (r # rs))))
         (\<lambda>p. Inr (p - 1))"
  unfolding geometric_mean_return_def Let_def foldl_times_start
  by (simp add: py_div_def del: of_nat_Suc)

text \<open>
  C5: on the empty list both functions return 0.  On a non-empty list
  \<open>holding_period_return\<close> is the product of the \<open>1 + r\<^sub>i\<close> minus one, and
  \<open>geometric_mean_return\<close> is that product to the power \<open>1 / n\<close> (the power operator of
  the language) minus one.  When the product is not negative, or the list has one element,
  that is the \<open>n\<close>-th root of the product minus one; when the product is negative and the
  list has two elements or more, the result is a complex number and no real one.
\<close>

theorem mean_returns:
  "geometric_mean_return [] = Inr 0
   \<and> holding_period_return [] = 0
   \<and> holding_period_return (r # rs) = prod_list (map (\<lambda>x. 1 + x) (r # rs)) - 1
   \<and> geometric_mean_return (r # rs)
       = py_bind (py_pow (prod_list (map (\<lambda>x. 1 + x) (r # rs))) (1 / real (length (r # rs))))
           (\<lambda>p. Inr (p - 1))
   \<and> geometric_mean_return (r # rs)
       = (if 0 \<le> prod_list (map (\<lambda>x. 1 + x) (r # rs)) \<or> rs = []
          then Inr (root (length (r # rs)) (prod_list (map (\<lambda>x. 1 + x) (r # rs))) - 1)
          else Inl ComplexResult)"
proof -
  let ?P = "prod_list (map (\<lambda>x. 1 + x) (r # rs))"
  have g: "geometric_mean_return (r # rs)
       = py_bind (py_pow ?P (1 / real (length (r # rs)))) (\<lambda>p. Inr (p - 1))"
    by (rule geometric_mean_return_Cons)
  have c: "geometric_mean_return (r # rs)
       = (if 0 \<le> ?P \<or> rs = [] then Inr (root (length (r # rs)) ?P - 1)
          else Inl ComplexResult)"
  proof (cases "0 \<le> ?P")
    case True
    then have "py_pow ?P (1 / real (length (r # rs))) = Inr (root (length (r # rs)) ?P)"
      by (rule py_pow_root) simp
    with g True show ?thesis by simp
  next
    case neg: False
    show ?thesis
    proof (cases "rs = []")
      case True
      then have "geometric_mean_return (r # rs) = Inr (1 + r - 1)"
        unfolding g by (simp add: py_pow_one)
      with True show ?thesis by simp
    next
      case False
      then have "1 < length (r # rs)" by (cases rs) simp_all
      with neg have "py_pow ?P (1 / real (length (r # rs))) = Inl ComplexResult"
        by (intro py_pow_negative_root) simp_all
      with g neg False show ?thesis by simp
    qed
  qed
  have e: "geometric_mean_return [] = Inr 0"
    by (simp add: geometric_mean_return_def)
  have h0: "holding_period_return [] = 0"
    by (simp add: holding_period_return_def)
  have h: "holding_period_return (r # rs) = ?P - 1"
    unfolding holding_period_return_def Let_def foldl_times_start by simp
  from e h0 h g c show ?thesis by (intro conjI)
qed

lemma root_2_16: "root 2 (16::real) = 4"
proof -
  have "root 2 ((4::real) ^ 2) = 4" by (rule real_root_power_cancel) simp_all
  then show ?thesis by simp
qed

theorem mean_returns_witness:
  "0 \<le> prod_list (map (\<lambda>x. 1 + x) [3, 3 :: real])
   \<and> geometric_mean_return [3, 3] = Inr 3
   \<and> holding_period_return [3, 3] = 15"
proof -
  have p: "0 \<le> prod_list (map (\<lambda>x. 1 + x) [3, 3 :: real])" by simp
  from mean_returns [of 3 "[3]"]
  have "geometric_mean_return [3, 3]
          = (if 0 \<le> prod_list (map (\<lambda>x. 1 + x) [3, 3 :: real]) \<or> [3 :: real] = []
             then Inr (root (length [3, 3 :: real]) (prod_list (map (\<lambda>x. 1 + x) [3, 3])) - 1)
             else Inl ComplexResult)"
    and "holding_period_return [3, 3] = prod_list (map (\<lambda>x. 1 + x) [3, 3]) - 1"
    by blast+
  moreover have "root (length [3, 3 :: real]) (prod_list (map (\<lambda>x. 1 + x) [3, 3])) = 4"
    using root_2_16 by (simp add: numeral_2_eq_2)
  ultimately show ?thesis using p by simp
qed

text \<open>
  C5, a list on which the result is no real number: the returns \<open>- 3, 1, 1\<close> have the
  product \<open>- 8\<close>, whose cube root is \<open>- 2\<close>; \<open>(- 8) ** (1 / 3)\<close> is a complex number,
  so the function does not return \<open>- 3\<close>.
\<close>

theorem mean_returns_counterexample:
  "prod_list (map (\<lambda>x. 1 + x) [- 3, 1, 1 :: real]) = - 8
   \<and> root 3 (- 8) - 1 = (- 3 :: real)
   \<and> geometric_mean_return [- 3, 1, 1] = Inl ComplexResult
   \<and> geometric_mean_return [- 3, 1, 1] \<noteq> Inr (- 3)"
proof -
  have "root 3 (- ((2::real) ^ 3)) = - 2"
    unfolding real_root_minus by (simp add: real_root_power_cancel)
  then have r: "root 3 (- 8) - 1 = (- 3 :: real)" by simp
  have g: "geometric_mean_return [- 3, 1, 1] = Inl ComplexResult"
    by (simp add: geometric_mean_return_def py_div_def py_pow_def)
  from r g show ?thesis by simp
qed

subsection \<open>Net present value\<close>

lemma npv_loop_sum:
  "1 + r \<noteq> 0 \<Longrightarrow>
   npv_loop r k cs s = Inr (s + (\<Sum>i<length cs. cs ! i / (1 + r) ^ (k + i + 1)))"
proof (induction cs arbitrary: k s)
  case Nil
  then show ?case by simp
next
  case (Cons c cs)
  have p: "py_pow (1 + r) (real (k + 1)) = Inr ((1 + r) ^ (k + 1))"
    using Cons.prems by (rule py_pow_of_nat)
  have d: "py_div c ((1 + r) ^ (k + 1)) = Inr (c / (1 + r) ^ (k + 1))"
    using Cons.prems by (simp add: py_div_nonzero)
  have "npv_loop r k (c # cs) s = npv_loop r (k + 1) cs (s + c / (1 + r) ^ (k + 1))"
    by (simp only: npv_loop.simps p d py_bind_Inr)
  also have "\<dots> = Inr (s + c / (1 + r) ^ (k + 1)
                      + (\<Sum>i<length cs. cs ! i / (1 + r) ^ (k + 1 + i + 1)))"
    using Cons.prems by (rule Cons.IH)
  also have "s + c / (1 + r) ^ (k + 1) + (\<Sum>i<length cs. cs ! i / (1 + r) ^ (k + 1 + i + 1))
           = s + (\<Sum>i<length (c # cs). (c # cs) ! i / (1 + r) ^ (k + i + 1))"
    by (simp del: sum.lessThan_Suc add: sum.lessThan_Suc_shift add.assoc)
  finally show ?case .
qed

lemma net_present_value_sum:
  assumes "1 + r \<noteq> 0"
  shows "net_present_value I cs r = Inr (- I + (\<Sum>i = 1..length cs. cs ! (i - 1) / (1 + r) ^ i))"
proof -
  have "(\<Sum>i = 1..length cs. cs ! (i - 1) / (1 + r) ^ i)
      = (\<Sum>i<length cs. cs ! i / (1 + r) ^ (0 + i + 1))"
    by (simp add: sum.atLeast1_atMost_eq)
  then show ?thesis
    unfolding net_present_value_def by (simp add: npv_loop_sum [OF assms])
qed

lemma npv_example:
  "net_present_value 400 [50, 60, 70, 100, 500] 0.12 = Inr (385358825 / 4302592)"
proof -
  have "net_present_value 400 [50, 60, 70, 100, 500] 0.12
      = Inr (- 400 + (0 + (\<Sum>i<length [50, 60, 70, 100, 500 :: real].
                [50, 60, 70, 100, 500] ! i / (1 + 0.12) ^ (0 + i + 1))))"
    unfolding net_present_value_def by (subst npv_loop_sum) simp_all
  also have "(\<Sum>i<length [50, 60, 70, 100, 500 :: real].
                [50, 60, 70, 100, 500] ! i / (1 + 0.12) ^ (0 + i + 1))
           = (50 / 1.12 + 60 / 1.12 ^ 2 + 70 / 1.12 ^ 3 + 100 / 1.12 ^ 4 + 500 / 1.12 ^ 5 :: real)"
    by (simp add: lessThan_Suc eval_nat_numeral)
  also have "- 400 + (0 + (50 / 1.12 + 60 / 1.12 ^ 2 + 70 / 1.12 ^ 3 + 100 / 1.12 ^ 4
                + 500 / 1.12 ^ 5)) = (385358825 / 4302592 :: real)"
    by (simp add: eval_nat_numeral)
  finally show ?thesis .
qed

lemma py_round_example: "py_round (385358825 / 4302592) 2 = 89.56"
proof -
  have f: "\<lfloor>(385358825 / 4302592 :: real) * 10 ^ 2\<rfloor> = 8956"
    by (simp add: floor_eq_iff)
  show ?thesis
    unfolding py_round_def Let_def f by simp
qed

text \<open>At a discount rate of \<open>- 1\<close> the first division is by zero.\<close>

lemma net_present_value_rate_minus_one:
  "net_present_value I (c # cs) (- 1) = Inl ZeroDivisionError"
  by (simp add: net_present_value_def py_pow_def py_div_def)

text \<open>
  C6: for every initial investment \<open>I\<close>, cash-flow list \<open>cs\<close> and discount rate \<open>r\<close> the
  net present value is \<open>- I\<close> plus the sum over \<open>i\<close> from 1 to the length of \<open>cs\<close> of the
  \<open>i\<close>-th cash flow divided by \<open>(1 + r) ^ i\<close>, the first cash flow being discounted one
  full period; at the one rate where that formula divides by zero, \<open>r = - 1\<close> with a
  cash flow to discount, the call raises \<open>ZeroDivisionError\<close>.  And
  \<open>net_present_value(400, [50, 60, 70, 100, 500], 0.12)\<close> rounded to two decimal places is
  \<open>89.56\<close>.
\<close>

theorem net_present_value_formula:
  "net_present_value I cs r
     = (if 1 + r = 0 \<and> cs \<noteq> [] then Inl ZeroDivisionError
        else Inr (- I + (\<Sum>i = 1..length cs. cs ! (i - 1) / (1 + r) ^ i)))
   \<and> py_bind (net_present_value 400 [50, 60, 70, 100, 500] 0.12) (\<lambda>v. Inr (py_round v 2))
        = Inr 89.56"
proof
  show "net_present_value I cs r
     = (if 1 + r = 0 \<and> cs \<noteq> [] then Inl ZeroDivisionError
        else Inr (- I + (\<Sum>i = 1..length cs. cs ! (i - 1) / (1 + r) ^ i)))"
  proof (cases "1 + r = 0")
    case False
    then show ?thesis by (simp add: net_present_value_sum)
  next
    case True
    then have r: "r = - 1" by simp
    show ?thesis
    proof (cases cs)
      case Nil
      then show ?thesis by (simp add: net_present_value_def)
    next
      case (Cons c cs')
      then show ?thesis
        unfolding r by (simp add: net_present_value_rate_minus_one)
    qed
  qed
next
  show "py_bind (net_present_value 400 [50, 60, 70, 100, 500] 0.12) (\<lambda>v. Inr (py_round v 2))
        = Inr 89.56"
    using npv_example py_round_example by simp
qed

lemma net_present_value_small_example: "net_present_value 100 [110, 121] 0.1 = Inr 100"
proof -
  have "(\<Sum>i = 1..length [110, 121 :: real]. [110, 121] ! (i - 1) / (1 + 0.1) ^ i)
          = (200 :: real)"
    by (simp add: sum.atLeast1_atMost_eq lessThan_Suc eval_nat_numeral)
  then show ?thesis
    by (simp add: net_present_value_sum)
qed

text \<open>
  C6, the rate that the formula does not cover: at a discount rate of \<open>- 1\<close> the call on
  the cash flows of the example raises \<open>ZeroDivisionError\<close>; it returns no number, so
  not the number that the sum would be.
\<close>

theorem net_present_value_counterexample:
  "net_present_value 400 [50, 60, 70, 100, 500] (- 1) = Inl ZeroDivisionError
   \<and> net_present_value 400 [50, 60, 70, 100, 500] (- 1)
       \<noteq> Inr (- 400 + (\<Sum>i = 1..length [50, 60, 70, 100, 500 :: real].
                          [50, 60, 70, 100, 500] ! (i - 1) / (1 + (- 1)) ^ i))"
  by (simp add: net_present_value_rate_minus_one)

section \<open>Properties of the mortgage calculator\<close>

lemma amortization_loop_Nil [simp]: "amortization_loop pay rate [] st = st"
  by (simp add: amortization_loop_def)

lemma amortization_loop_Cons [simp]:
  "amortization_loop pay rate (i # ms) st
     = amortization_loop pay rate ms (amortization_step pay rate i st)"
  by (simp add: amortization_loop_def)

lemma amortization_loop_append:
  "amortization_loop pay rate (xs @ ys) st
     = amortization_loop pay rate ys (amortization_loop pay rate xs st)"
  by (simp add: amortization_loop_def)

lemma step_loanLeft:
  "st_loanLeft (amortization_step pay rate i st)
     = (if st_loanLeft st - pay \<le> 0 then 0 else st_loanLeft st - pay)"
  by (simp add: amortization_step_def Let_def)

lemma step_loanLeft_nonneg: "0 \<le> st_loanLeft (amortization_step pay rate i st)"
  by (simp add: step_loanLeft)

lemma step_interestTotal:
  "st_interestTotal (amortization_step pay rate i st)
     = st_interestTotal st + st_loanLeft st * (rate / 12)"
  by (simp add: amortization_step_def Let_def)

lemma step_rows:
  "st_rows (amortization_step pay rate i st)
     = st_rows st @
         [\<lparr>row_month = i, row_amortization = pay,
           row_interest = st_loanLeft st * (rate / 12),
           row_payment = pay + st_loanLeft st * (rate / 12),
           row_loanLeft = st_loanLeft (amortization_step pay rate i st)\<rparr>]"
  by (simp add: amortization_step_def Let_def)

lemma loop_loanLeft:
  assumes "0 \<le> pay"
  shows "0 \<le> st_loanLeft st \<Longrightarrow>
         st_loanLeft (amortization_loop pay rate ms st)
           = max 0 (st_loanLeft st - real (length ms) * pay)"
proof (induction ms arbitrary: st)
  case Nil
  then show ?case by simp
next
  case (Cons i ms)
  have "st_loanLeft (amortization_loop pay rate (i # ms) st)
      = max 0 (st_loanLeft (amortization_step pay rate i st) - real (length ms) * pay)"
    using Cons.IH [OF step_loanLeft_nonneg] by simp
  also have "\<dots> = max 0 (st_loanLeft st - real (length (i # ms)) * pay)"
  proof (cases "st_loanLeft st - pay \<le> 0")
    case True
    have "0 \<le> real (length ms) * pay" using assms by simp
    with True show ?thesis by (simp add: step_loanLeft algebra_simps max_def)
  next
    case False
    then show ?thesis by (simp add: step_loanLeft algebra_simps)
  qed
  finally show ?case .
qed

lemma loop_rows_invariant:
  assumes "\<forall>row \<in> set (st_rows st). 0 \<le> row_loanLeft row \<and> row_amortization row = pay"
  shows "\<forall>row \<in> set (st_rows (amortization_loop pay rate ms st)).
           0 \<le> row_loanLeft row \<and> row_amortization row = pay"
  using assms
proof (induction ms arbitrary: st)
  case Nil
  then show ?case by (simp only: amortization_loop_Nil)
next
  case (Cons i ms)
  have "\<forall>row \<in> set (st_rows (amortization_step pay rate i st)).
          0 \<le> row_loanLeft row \<and> row_amortization row = pay"
  proof
    fix row
    assume "row \<in> set (st_rows (amortization_step pay rate i st))"
    then consider "row \<in> set (st_rows st)"
      | "row = \<lparr>row_month = i, row_amortization = pay,
           row_interest = st_loanLeft st * (rate / 12),
           row_payment = pay + st_loanLeft st * (rate / 12),
           row_loanLeft = st_loanLeft (amortization_step pay rate i st)\<rparr>"
      unfolding step_rows by auto
    then show "0 \<le> row_loanLeft row \<and> row_amortization row = pay"
    proof cases
      case 1
      with Cons.prems show ?thesis by blast
    next
      case 2
      then show ?thesis by (simp add: step_loanLeft_nonneg)
    qed
  qed
  then have "\<forall>row \<in> set (st_rows (amortization_loop pay rate ms (amortization_step pay rate i st))).
          0 \<le> row_loanLeft row \<and> row_amortization row = pay"
    by (rule Cons.IH)
  then show ?case by (simp only: amortization_loop_Cons)
qed

lemma loop_rows_length:
  "length (st_rows (amortization_loop pay rate ms st)) = length (st_rows st) + length ms"
  by (induction ms arbitrary: st) (simp_all add: step_rows)

lemma loop_rows_prefix:
  "\<exists>ys. st_rows (amortization_loop pay rate ms st) = st_rows st @ ys"
proof (induction ms arbitrary: st)
  case Nil
  then show ?case by simp
next
  case (Cons i ms)
  from Cons.IH [of "amortization_step pay rate i st"] show ?case
    by (auto simp add: step_rows)
qed

lemma loop_loanLeft_nonneg:
  "0 \<le> st_loanLeft st \<Longrightarrow> 0 \<le> st_loanLeft (amortization_loop pay rate ms st)"
  by (induction ms arbitrary: st) (simp_all add: step_loanLeft_nonneg)

lemma trace_interest_sorted:
  assumes "0 \<le> rate" and "0 \<le> st_loanLeft st"
  shows "sorted (map st_interestTotal (amortization_trace pay rate ms st))"
proof -
  have step: "st_interestTotal (amortization_loop pay rate (take k ms) st)
            \<le> st_interestTotal (amortization_loop pay rate (take (Suc k) ms) st)"
    if "k < length ms" for k
  proof -
    have "take (Suc k) ms = take k ms @ [ms ! k]"
      using that by (simp add: take_Suc_conv_app_nth)
    then have "st_interestTotal (amortization_loop pay rate (take (Suc k) ms) st)
        = st_interestTotal (amortization_loop pay rate (take k ms) st)
          + st_loanLeft (amortization_loop pay rate (take k ms) st) * (rate / 12)"
      by (simp add: amortization_loop_append step_interestTotal)
    moreover have "0 \<le> st_loanLeft (amortization_loop pay rate (take k ms) st)"
      using assms(2) by (rule loop_loanLeft_nonneg)
    ultimately show ?thesis using assms(1) by simp
  qed
  show ?thesis
    unfolding sorted_iff_nth_Suc amortization_trace_def
  proof (intro allI impI)
    fix i
    assume "Suc i < length (map st_interestTotal
              (map (\<lambda>k. amortization_loop pay rate (take k ms) st) [0..<Suc (length ms)]))"
    then have i: "i < length ms" by simp
    then have "map st_interestTotal
              (map (\<lambda>k. amortization_loop pay rate (take k ms) st) [0..<Suc (length ms)]) ! i
            = st_interestTotal (amortization_loop pay rate (take i ms) st)"
      and "map st_interestTotal
              (map (\<lambda>k. amortization_loop pay rate (take k ms) st) [0..<Suc (length ms)]) ! Suc i
            = st_interestTotal (amortization_loop pay rate (take (Suc i) ms) st)"
      by (simp_all add: nth_append del: upt_Suc)
    with step [OF i] show "map st_interestTotal
              (map (\<lambda>k. amortization_loop pay rate (take k ms) st) [0..<Suc (length ms)]) ! i
            \<le> map st_interestTotal
              (map (\<lambda>k. amortization_loop pay rate (take k ms) st) [0..<Suc (length ms)]) ! Suc i"
      by simp
  qed
qed


lemma mortgage_plan_of_Inr:
  assumes "mortgage_plan_of inp = Inr plan"
  shows "amortizationPayment plan = loanAmount plan / amortizationNumberOfPayments plan"
    and "st_rows (start plan) = []"
    and "st_loanLeft (start plan) = loanAmount plan"
    and "amortizationNumberOfPayments plan \<noteq> 0"
  using assms
  by (auto simp add: mortgage_plan_of_def Let_def py_div_def split: if_splits)

lemma default_plan:
  "mortgage_plan_of \<lparr>in_propertyCost = 2000000, in_downPayment = 0.15,
                     in_mortgageType = 15, in_interestRate = 0.04\<rparr>
     = Inr \<lparr>loanAmount = 1700000, amortizationNumberOfPayments = 180,
            amortizationPayment = 1700000 / 180, months = [1..<181],
            start = \<lparr>st_loanLeft = 1700000, st_interestTotal = 0, st_rows = []\<rparr>\<rparr>"
  by (simp add: mortgage_plan_of_def Let_def py_div_def py_trunc_def)

lemma first_row:
  assumes "st_rows st = []"
  shows "hd (st_rows (amortization_loop pay rate (i # ms) st))
           = \<lparr>row_month = i, row_amortization = pay,
               row_interest = st_loanLeft st * (rate / 12),
               row_payment = pay + st_loanLeft st * (rate / 12),
               row_loanLeft = (if st_loanLeft st - pay \<le> 0 then 0 else st_loanLeft st - pay)\<rparr>"
proof -
  obtain ys where "st_rows (amortization_loop pay rate ms (amortization_step pay rate i st))
      = st_rows (amortization_step pay rate i st) @ ys"
    using loop_rows_prefix by blast
  then show ?thesis
    using assms by (simp add: step_rows step_loanLeft)
qed

text \<open>
  C3: with every answer left empty the property costs 2000000, the down payment is 15 percent,
  the term 15 years and the rate 4 percent.  Then the loan is 1700000, there are 180 payments
  of 1700000 / 180 each, the loop runs over the months 1 to 180, the interest of the first
  row is the loan balance at that moment (1700000) times 0.04 / 12, the accumulated interest
  never decreases from one iteration to the next, 180 rows are printed, and the balance
  after the last iteration is exactly 0.
\<close>

theorem mortgage_defaults:
  "mortgage_ask Empty Empty Empty Empty
     = Inr \<lparr>in_propertyCost = 2000000, in_downPayment = 0.15,
            in_mortgageType = 15, in_interestRate = 0.04\<rparr>
   \<and> mortgage_plan_of \<lparr>in_propertyCost = 2000000, in_downPayment = 0.15,
                       in_mortgageType = 15, in_interestRate = 0.04\<rparr>
     = Inr \<lparr>loanAmount = 1700000, amortizationNumberOfPayments = 180,
            amortizationPayment = 1700000 / 180, months = [1..<181],
            start = \<lparr>st_loanLeft = 1700000, st_interestTotal = 0, st_rows = []\<rparr>\<rparr>
   \<and> row_interest (hd (st_rows (amortization_loop (1700000 / 180) 0.04 [1..<181]
         \<lparr>st_loanLeft = 1700000, st_interestTotal = 0, st_rows = []\<rparr>)))
     = 1700000 * (0.04 / 12)
   \<and> sorted (map st_interestTotal (amortization_trace (1700000 / 180) 0.04 [1..<181]
         \<lparr>st_loanLeft = 1700000, st_interestTotal = 0, st_rows = []\<rparr>))
   \<and> length (st_rows (amortization_loop (1700000 / 180) 0.04 [1..<181]
         \<lparr>st_loanLeft = 1700000, st_interestTotal = 0, st_rows = []\<rparr>)) = 180
   \<and> st_loanLeft (amortization_loop (1700000 / 180) 0.04 [1..<181]
         \<lparr>st_loanLeft = 1700000, st_interestTotal = 0, st_rows = []\<rparr>) = 0"
proof (intro conjI)
  show "mortgage_ask Empty Empty Empty Empty
     = Inr \<lparr>in_propertyCost = 2000000, in_downPayment = 0.15,
            in_mortgageType = 15, in_interestRate = 0.04\<rparr>"
    by (simp add: mortgage_ask_def)
next
  show "mortgage_plan_of \<lparr>in_propertyCost = 2000000, in_downPayment = 0.15,
                       in_mortgageType = 15, in_interestRate = 0.04\<rparr>
     = Inr \<lparr>loanAmount = 1700000, amortizationNumberOfPayments = 180,
            amortizationPayment = 1700000 / 180, months = [1..<181],
            start = \<lparr>st_loanLeft = 1700000, st_interestTotal = 0, st_rows = []\<rparr>\<rparr>"
    by (rule default_plan)
next
  have u: "[1..<181] = (1::nat) # [Suc 1..<181]"
    by (rule upt_conv_Cons) simp
  show "row_interest (hd (st_rows (amortization_loop (1700000 / 180) 0.04 [1..<181]
         \<lparr>st_loanLeft = 1700000, st_interestTotal = 0, st_rows = []\<rparr>)))
     = 1700000 * (0.04 / 12)"
    by (subst u, subst first_row) simp_all
next
  show "sorted (map st_interestTotal (amortization_trace (1700000 / 180) 0.04 [1..<181]
         \<lparr>st_loanLeft = 1700000, st_interestTotal = 0, st_rows = []\<rparr>))"
    by (rule trace_interest_sorted) simp_all
next
  show "length (st_rows (amortization_loop (1700000 / 180) 0.04 [1..<181]
         \<lparr>st_loanLeft = 1700000, st_interestTotal = 0, st_rows = []\<rparr>)) = 180"
    by (simp add: loop_rows_length)
next
  have "st_loanLeft (amortization_loop (1700000 / 180) 0.04 [1..<181]
         \<lparr>st_loanLeft = 1700000, st_interestTotal = 0, st_rows = []\<rparr>)
      = max 0 (st_loanLeft \<lparr>st_loanLeft = 1700000, st_interestTotal = 0, st_rows = []\<rparr>
               - real (length [1..<181]) * (1700000 / 180))"
    by (rule loop_loanLeft) simp_all
  then show "st_loanLeft (amortization_loop (1700000 / 180) 0.04 [1..<181]
         \<lparr>st_loanLeft = 1700000, st_interestTotal = 0, st_rows = []\<rparr>) = 0"
    by simp
qed

text \<open>
  C7: whenever subtracting the payment makes the balance zero or negative the step stores 0;
  and for every input that reaches the loop, every printed row shows a balance that is not
  negative (the number, and the whole number displayed for it) and shows the same fixed
  payment, the loan divided by the number of payments, in the last row as in every other.
\<close>

theorem loan_left_clamped:
  "(st_loanLeft st - pay \<le> 0 \<longrightarrow> st_loanLeft (amortization_step pay rate i st) = 0)
   \<and> (mortgage_plan_of inp = Inr plan \<longrightarrow>
        (\<forall>row \<in> set (st_rows (amortization_loop (amortizationPayment plan) (in_interestRate inp)
                              (months plan) (start plan))).
           0 \<le> row_loanLeft row
           \<and> 0 \<le> \<lceil>row_loanLeft row\<rceil>
           \<and> row_amortization row = amortizationPayment plan
           \<and> row_amortization row = loanAmount plan / amortizationNumberOfPayments plan))"
proof (intro conjI impI)
  assume "st_loanLeft st - pay \<le> 0"
  then show "st_loanLeft (amortization_step pay rate i st) = 0"
    by (simp add: step_loanLeft)
next
  assume p: "mortgage_plan_of inp = Inr plan"
  have "\<forall>row \<in> set (st_rows (start plan)).
          0 \<le> row_loanLeft row \<and> row_amortization row = amortizationPayment plan"
    using mortgage_plan_of_Inr(2) [OF p] by simp
  then have "\<forall>row \<in> set (st_rows (amortization_loop (amortizationPayment plan)
                 (in_interestRate inp) (months plan) (start plan))).
          0 \<le> row_loanLeft row \<and> row_amortization row = amortizationPayment plan"
    by (rule loop_rows_invariant)
  then show "\<forall>row \<in> set (st_rows (amortization_loop (amortizationPayment plan)
                 (in_interestRate inp) (months plan) (start plan))).
           0 \<le> row_loanLeft row
           \<and> 0 \<le> \<lceil>row_loanLeft row\<rceil>
           \<and> row_amortization row = amortizationPayment plan
           \<and> row_amortization row = loanAmount plan / amortizationNumberOfPayments plan"
    using mortgage_plan_of_Inr(1) [OF p] by (auto simp add: le_ceiling_iff)
qed

theorem loan_left_clamped_witness:
  "mortgage_plan_of \<lparr>in_propertyCost = 2000000, in_downPayment = 0.15,
                     in_mortgageType = 0.25, in_interestRate = 0.04\<rparr>
     = Inr \<lparr>loanAmount = 1700000, amortizationNumberOfPayments = 3,
            amortizationPayment = 1700000 / 3, months = [1..<4],
            start = \<lparr>st_loanLeft = 1700000, st_interestTotal = 0, st_rows = []\<rparr>\<rparr>
   \<and> st_loanLeft \<lparr>st_loanLeft = 100, st_interestTotal = 0, st_rows = []\<rparr> - 250 \<le> 0
   \<and> st_loanLeft (amortization_step 250 0.04 1
         \<lparr>st_loanLeft = 100, st_interestTotal = 0, st_rows = []\<rparr>) = 0
   \<and> list_all (\<lambda>row. 0 \<le> row_loanLeft row \<and> 0 \<le> \<lceil>row_loanLeft row\<rceil>
                  \<and> row_amortization row = 1700000 / 3)
        (st_rows (amortization_loop (1700000 / 3) 0.04 [1..<4]
           \<lparr>st_loanLeft = 1700000, st_interestTotal = 0, st_rows = []\<rparr>))"
proof -
  let ?inp = "\<lparr>in_propertyCost = 2000000, in_downPayment = 0.15,
               in_mortgageType = 0.25, in_interestRate = 0.04\<rparr>"
  let ?plan = "\<lparr>loanAmount = 1700000, amortizationNumberOfPayments = 3,
                amortizationPayment = 1700000 / 3, months = [1..<4],
                start = \<lparr>st_loanLeft = 1700000, st_interestTotal = 0, st_rows = []\<rparr>\<rparr>"
  let ?st = "\<lparr>st_loanLeft = 100, st_interestTotal = 0, st_rows = []\<rparr>"
  have p: "mortgage_plan_of ?inp = Inr ?plan"
    by (simp add: mortgage_plan_of_def Let_def py_div_def py_trunc_def)
  have c: "st_loanLeft ?st - 250 \<le> 0" by simp
  from loan_left_clamped [where st = ?st and pay = 250 and rate = "0.04" and i = 1
      and inp = ?inp and plan = ?plan] p c
  have s: "st_loanLeft (amortization_step 250 0.04 1 ?st) = 0"
    and r: "\<forall>row \<in> set (st_rows (amortization_loop (amortizationPayment ?plan)
                (in_interestRate ?inp) (months ?plan) (start ?plan))).
            0 \<le> row_loanLeft row \<and> 0 \<le> \<lceil>row_loanLeft row\<rceil>
            \<and> row_amortization row = amortizationPayment ?plan
            \<and> row_amortization row = loanAmount ?plan / amortizationNumberOfPayments ?plan"
    by blast+
  from r have "list_all (\<lambda>row. 0 \<le> row_loanLeft row \<and> 0 \<le> \<lceil>row_loanLeft row\<rceil>
                  \<and> row_amortization row = 1700000 / 3)
        (st_rows (amortization_loop (1700000 / 3) 0.04 [1..<4]
           \<lparr>st_loanLeft = 1700000, st_interestTotal = 0, st_rows = []\<rparr>))"
    unfolding list_all_iff by simp
  with p c s show ?thesis by blast
qed

section \<open>Properties of the calculators that call the missing method\<close>

lemma fm_getattr_average:
  "fm_getattr ''average_rate_of_return_per_year'' = Inl AttributeError"
  by (simp add: fm_getattr_def FinanceFormulas_methods_def)

lemma fm_getattr_compound_interest: "fm_getattr ''compound_interest'' = Inr ()"
  by (simp add: fm_getattr_def FinanceFormulas_methods_def)

text \<open>
  C10: the class defines no method named \<open>average_rate_of_return_per_year\<close>; both
  scripts call it on the class's object, so every run of the compound-interest calculator
  and every run of the average-rate-of-return calculator whose answers convert (and so
  reaches the call) ends in an \<open>AttributeError\<close> that nothing catches, with no line
  printed: no table row and no result.  This holds whatever body the method might have had.
\<close>

theorem missing_method:
  "''average_rate_of_return_per_year'' \<notin> set FinanceFormulas_methods
   \<and> (compound_ask a1 a2 a3 a4 a5 = Inr inp \<longrightarrow>
        compound_main avg a1 a2 a3 a4 a5 = ([], Uncaught AttributeError))
   \<and> (average_ask b1 b2 = Inr v \<longrightarrow>
        average_main avg' str_float b1 b2 = ([], Uncaught AttributeError))"
proof (intro conjI impI)
  show "''average_rate_of_return_per_year'' \<notin> set FinanceFormulas_methods"
    by (simp add: FinanceFormulas_methods_def)
next
  assume "compound_ask a1 a2 a3 a4 a5 = Inr inp"
  then show "compound_main avg a1 a2 a3 a4 a5 = ([], Uncaught AttributeError)"
    by (simp add: compound_main_def fm_getattr_average)
next
  assume "average_ask b1 b2 = Inr v"
  then show "average_main avg' str_float b1 b2 = ([], Uncaught AttributeError)"
    by (cases v) (simp add: average_main_def fm_getattr_average)
qed

theorem missing_method_witness:
  "compound_ask (IntLit 1000) (FloatLit 250.5) (IntLit 7) (IntLit 10) ''n''
     = Inr \<lparr>ci_startCapital = 1000, ci_monthlyDeposit = 250.5, ci_rateOfReturn = 0.07,
            ci_yearsToSave = 10, ci_flatRateTax = False\<rparr>
   \<and> compound_main (\<lambda>total years. Inr 0) (IntLit 1000) (FloatLit 250.5) (IntLit 7)
        (IntLit 10) ''n'' = ([], Uncaught AttributeError)
   \<and> average_ask (FloatLit 2.5) (IntLit 10) = Inr (2.5, 10)
   \<and> average_main (\<lambda>total years. Inr 0) (\<lambda>x. []) (FloatLit 2.5) (IntLit 10)
        = ([], Uncaught AttributeError)"
proof -
  have c: "compound_ask (IntLit 1000) (FloatLit 250.5) (IntLit 7) (IntLit 10) ''n''
     = Inr \<lparr>ci_startCapital = 1000, ci_monthlyDeposit = 250.5, ci_rateOfReturn = 0.07,
            ci_yearsToSave = 10, ci_flatRateTax = False\<rparr>"
    by (simp add: compound_ask_def py_float_def py_int_def py_lower_def)
  have a: "average_ask (FloatLit 2.5) (IntLit 10) = Inr (2.5, 10)"
    by (simp add: average_ask_def py_float_def py_int_def)
  from c a missing_method [where ?a1.0 = "IntLit 1000" and ?a2.0 = "FloatLit 250.5"
      and ?a3.0 = "IntLit 7" and ?a4.0 = "IntLit 10" and ?a5.0 = "''n''"
      and ?b1.0 = "FloatLit 2.5" and ?b2.0 = "IntLit 10"]
  show ?thesis by blast
qed

text \<open>
  C1: the compound-interest calculator run with every answer left empty, that is with a
  start capital of 250000, a monthly deposit of 5000, a yearly return of 8 percent, 20
  years and the flat-rate tax included.  The run ends at line 28 in an \<open>AttributeError\<close>
  with nothing printed, so it prints no yearly row.
\<close>

theorem compound_defaults_fail:
  "compound_ask Empty Empty Empty Empty []
     = Inr \<lparr>ci_startCapital = 250000, ci_monthlyDeposit = 5000, ci_rateOfReturn = 0.08,
            ci_yearsToSave = 20, ci_flatRateTax = True\<rparr>
   \<and> compound_main avg Empty Empty Empty Empty [] = ([], Uncaught AttributeError)"
  by (simp add: compound_main_def compound_ask_def fm_getattr_average)

lemma compound_interest_one: "compound_interest c a 1 = Inr (c * (1 + a - 1))"
  by (simp add: compound_interest_def py_pow_one)

lemma calculate_flat_rate_tax_total: "\<exists>tax. calculate_flat_rate_tax qs d g = Inr tax"
proof -
  have "py_div (py_sum qs + d) 4 = Inr ((py_sum qs + d) / 4)"
    by (simp add: py_div_nonzero)
  then show ?thesis
    unfolding calculate_flat_rate_tax_def Let_def by (simp only: py_bind_Inr) blast
qed

lemma savings_step_saved:
  "\<exists>st'. savings_step f d a m st = Inr st'
     \<and> cs_totalSaved st' = cs_totalSaved st + d
     \<and> map sv_totSaved (cs_rows st')
         = map sv_totSaved (cs_rows st) @ (if m mod 12 = 11 then [cs_totalSaved st + d] else [])"
proof (cases "m mod 12 = 11")
  case True
  obtain tax where "calculate_flat_rate_tax (cs_quaterValues st) (d * 12) 0.0002 = Inr tax"
    using calculate_flat_rate_tax_total by blast
  with True show ?thesis
    by (simp add: savings_step_def fm_getattr_compound_interest compound_interest_one Let_def)
next
  case False
  then show ?thesis
    by (simp add: savings_step_def fm_getattr_compound_interest compound_interest_one Let_def)
qed

lemma savings_loop_saved:
  "\<exists>final. savings_loop f d a [m0..<m0 + n] st = (final, None)
     \<and> cs_totalSaved final = cs_totalSaved st + real n * d
     \<and> map sv_totSaved (cs_rows final)
         = map sv_totSaved (cs_rows st)
           @ map (\<lambda>m. cs_totalSaved st + (real m + 1 - real m0) * d)
               (filter (\<lambda>m. m mod 12 = 11) [m0..<m0 + n])"
proof (induction n arbitrary: m0 st)
  case 0
  then show ?case by simp
next
  case (Suc n)
  obtain st' where s: "savings_step f d a m0 st = Inr st'"
    and t: "cs_totalSaved st' = cs_totalSaved st + d"
    and r: "map sv_totSaved (cs_rows st')
         = map sv_totSaved (cs_rows st) @ (if m0 mod 12 = 11 then [cs_totalSaved st + d] else [])"
    using savings_step_saved by blast
  obtain final where l: "savings_loop f d a [Suc m0..<Suc m0 + n] st' = (final, None)"
    and ft: "cs_totalSaved final = cs_totalSaved st' + real n * d"
    and fr: "map sv_totSaved (cs_rows final)
         = map sv_totSaved (cs_rows st')
           @ map (\<lambda>m. cs_totalSaved st' + (real m + 1 - real (Suc m0)) * d)
               (filter (\<lambda>m. m mod 12 = 11) [Suc m0..<Suc m0 + n])"
    using Suc.IH [of "Suc m0" st'] by blast
  have u: "[m0..<m0 + Suc n] = m0 # [Suc m0..<Suc m0 + n]"
    by (simp add: upt_conv_Cons)
  have 1: "savings_loop f d a [m0..<m0 + Suc n] st = (final, None)"
    unfolding u using s l by simp
  have 2: "cs_totalSaved final = cs_totalSaved st + real (Suc n) * d"
    using ft t by (simp add: algebra_simps)
  have e: "(\<lambda>m. cs_totalSaved st' + (real m + 1 - real (Suc m0)) * d)
         = (\<lambda>m. cs_totalSaved st + (real m + 1 - real m0) * d)"
    using t by (simp add: algebra_simps fun_eq_iff)
  have 3: "map sv_totSaved (cs_rows final)
         = map sv_totSaved (cs_rows st)
           @ map (\<lambda>m. cs_totalSaved st + (real m + 1 - real m0) * d)
               (filter (\<lambda>m. m mod 12 = 11) [m0..<m0 + Suc n])"
    unfolding u fr r e by simp
  from 1 2 3 show ?case by blast
qed

lemma year_ends: "filter (\<lambda>m. m mod 12 = 11) [0..<240] = map (\<lambda>k. 12 * k + 11) [0..<20]"
  by code_simp

text \<open>
  The loop itself, entered with the default start capital and monthly deposit and any monthly
  rate, runs through its 240 months without raising and prints 20 rows whose \<open>Tot Saved\<close>
  values are \<open>250000 + 60000 * k\<close> for \<open>k\<close> from 1 to 20.  Only the failed lookup before
  the loop keeps the default run from printing them.
\<close>

lemma savings_default_rows:
  "\<exists>final. savings_loop f 5000 a [0..<240] (savings_start 250000) = (final, None)
     \<and> map sv_totSaved (cs_rows final) = map (\<lambda>k. 250000 + 60000 * real k) [1..<21]"
proof -
  obtain final
    where l: "savings_loop f 5000 a [0..<0 + 240] (savings_start 250000) = (final, None)"
      and r: "map sv_totSaved (cs_rows final)
         = map sv_totSaved (cs_rows (savings_start 250000))
           @ map (\<lambda>m. cs_totalSaved (savings_start 250000) + (real m + 1 - real 0) * 5000)
               (filter (\<lambda>m. m mod 12 = 11) [0..<0 + 240])"
    using savings_loop_saved [of f 5000 a 0 240 "savings_start 250000"] by blast
  have e: "[1..<21] = map Suc [0..<20]"
    unfolding map_Suc_upt by simp
  have "map (\<lambda>m. cs_totalSaved (savings_start 250000) + (real m + 1 - real 0) * 5000)
               (filter (\<lambda>m. m mod 12 = 11) [0..<0 + 240])
        = map (\<lambda>k. 250000 + 60000 * real k) [1..<21]"
    unfolding add_0 year_ends e map_map
    by (rule map_cong) (simp_all add: savings_start_def algebra_simps)
  with l r show ?thesis by (simp add: savings_start_def)
qed

section \<open>Properties of the number formatting\<close>

text \<open>
  Cutting the fraction off agrees with the ceiling exactly on the numbers that are integral
  or not positive.
\<close>

lemma py_trunc_ceiling: "py_trunc x = \<lceil>x\<rceil> \<longleftrightarrow> x \<le> 0 \<or> of_int \<lfloor>x\<rfloor> = x"
  unfolding py_trunc_def by (auto simp add: ceiling_altdef)

lemma format_number_savings_trunc:
  "format_number_savings x = format_number_mortgage (of_int (py_trunc x))"
  by (simp add: format_number_savings_def format_number_mortgage_def)

lemma isk_year_one:
  "isk_loop True 2000 0.08 [1..<13] (isk_start 100000)
     = (\<lparr>is_totalSum = 667182 / 5, is_totalSaved = 124000, is_totalGained = 9920,
         is_yearCounter = 2,
         is_rows = [\<lparr>ir_year = 1, ir_gained = 9920, ir_salary = 9920 / 12, ir_tax = 2418 / 5,
                     ir_taxPercent = 39 / 8, ir_totSaved = 124000, ir_totGained = 9920,
                     ir_totCapital = 667182 / 5\<rparr>]\<rparr>, None)"
  by (simp add: isk_start_def isk_step_def Let_def fm_getattr_compound_interest
      compound_interest_one calculate_flat_rate_tax_def py_sum_def py_div_def upt_rec)

text \<open>
  The ISK calculator asked for one year, every other answer left empty: the summary, the
  header and the one row it prints.
\<close>

lemma isk_one_year:
  "isk_main fmt2 Empty Empty Empty (IntLit 1) []
     = ([ljust 25 ([CHR 0x0A] @ ''Start Capital: '') @ ''100 000'',
         ljust 25 ''Monthly Save:  '' @ ''2 000'',
         ljust 25 ''Yearly Return: '' @ ''8 %'',
         ljust 25 ''Years:         '' @ ''1'',
         ljust 25 ''Flat-Rate Tax included: '' @ ''True'' @ [CHR 0x0A],
         isk_header,
         ljust 8 ''1'' @ ljust 15 ''9 920'' @ ljust 15 ''826'' @ ljust 15 ''483''
           @ ljust 10 (fmt2 (39 / 8)) @ ljust 15 ''124 000'' @ ljust 15 ''9 920''
           @ ''133 436''],
        Finished)"
proof -
  have a: "isk_ask Empty Empty Empty (IntLit 1) []
     = Inr \<lparr>ii_startCapital = 100000, ii_monthlySave = 2000, ii_yearlyReturn = 0.08,
            ii_years = 1, ii_flatratetax = True\<rparr>"
    by (simp add: isk_ask_def py_int_def)
  have r: "py_round 8 0 = 8"
    by (simp add: py_round_def Let_def)
  have f: "format_number_savings 100000 = ''100 000''" "format_number_savings 2000 = ''2 000''"
    "format_number_savings 8 = ''8''" "format_number_savings 1 = ''1''"
    "format_number_savings 9920 = ''9 920''" "format_number_savings (2480 / 3) = ''826''"
    "format_number_savings (2418 / 5) = ''483''" "format_number_savings 124000 = ''124 000''"
    "format_number_savings (667182 / 5) = ''133 436''"
    by (simp_all add: format_number_savings_def py_trunc_def
      format_comma_def group_thousands.simps str_nat.simps digit_def replace_def)
  have s: "str_nat (Suc 0) = ''1''"
    by (simp add: str_nat.simps digit_def)
  have l: "isk_loop
      (ii_flatratetax \<lparr>ii_startCapital = 100000, ii_monthlySave = 2000, ii_yearlyReturn = 0.08,
            ii_years = 1, ii_flatratetax = True\<rparr>)
      (ii_monthlySave \<lparr>ii_startCapital = 100000, ii_monthlySave = 2000, ii_yearlyReturn = 0.08,
            ii_years = 1, ii_flatratetax = True\<rparr>)
      (ii_yearlyReturn \<lparr>ii_startCapital = 100000, ii_monthlySave = 2000, ii_yearlyReturn = 0.08,
            ii_years = 1, ii_flatratetax = True\<rparr>)
      [1..<nat (ii_years \<lparr>ii_startCapital = 100000, ii_monthlySave = 2000,
            ii_yearlyReturn = 0.08, ii_years = 1, ii_flatratetax = True\<rparr> * 12 + 1)]
      (isk_start (ii_startCapital \<lparr>ii_startCapital = 100000, ii_monthlySave = 2000,
            ii_yearlyReturn = 0.08, ii_years = 1, ii_flatratetax = True\<rparr>))
     = (\<lparr>is_totalSum = 667182 / 5, is_totalSaved = 124000, is_totalGained = 9920,
         is_yearCounter = 2,
         is_rows = [\<lparr>ir_year = 1, ir_gained = 9920, ir_salary = 9920 / 12, ir_tax = 2418 / 5,
                     ir_taxPercent = 39 / 8, ir_totSaved = 124000, ir_totGained = 9920,
                     ir_totCapital = 667182 / 5\<rparr>]\<rparr>, None)"
    using isk_year_one by simp
  show ?thesis
    unfolding isk_main_def a sum.case l prod.case option.case
    by (simp add: isk_row_line_def r f s)
qed

text \<open>
  C8: what the calculators display.  In the row that the ISK calculator prints for its first
  year (default capital, deposit and return) the \<open>Salary/Month\<close> value is
  \<open>9920 / 12\<close>, about 826.67, and it is displayed as \<open>826\<close>: \<open>int\<close> has cut the
  fraction off before \<open>math.ceil\<close> sees the number.  The mortgage calculator's
  \<open>format_number\<close> displays the same number as \<open>827\<close>, its ceiling.  Likewise two and a
  half is displayed as \<open>2\<close> by the one and as \<open>3\<close> by the other.
\<close>

theorem format_number_displays:
  "last (fst (isk_main fmt2 Empty Empty Empty (IntLit 1) []))
     = ljust 8 ''1'' @ ljust 15 ''9 920'' @ ljust 15 ''826'' @ ljust 15 ''483''
       @ ljust 10 (fmt2 (39 / 8)) @ ljust 15 ''124 000'' @ ljust 15 ''9 920'' @ ''133 436''
   \<and> format_number_savings (9920 / 12) = ''826''
   \<and> format_comma \<lceil>9920 / 12 :: real\<rceil> = ''827''
   \<and> format_number_mortgage (9920 / 12) = ''827''
   \<and> format_number_savings (5 / 2) = ''2''
   \<and> format_number_mortgage (5 / 2) = ''3''"
proof (intro conjI)
  show "last (fst (isk_main fmt2 Empty Empty Empty (IntLit 1) []))
     = ljust 8 ''1'' @ ljust 15 ''9 920'' @ ljust 15 ''826'' @ ljust 15 ''483''
       @ ljust 10 (fmt2 (39 / 8)) @ ljust 15 ''124 000'' @ ljust 15 ''9 920'' @ ''133 436''"
    unfolding isk_one_year by simp
qed (simp_all add: format_number_savings_def format_number_mortgage_def py_trunc_def
      format_comma_def group_thousands.simps str_nat.simps digit_def replace_def)

end
